theory Spec2Isabelle
  imports Complex_Main "HOL-Library.Word"
begin

section \<open>JavaScript values\<close>

text \<open>
  The values the codec handles dynamically: what \<^verbatim>\<open>JSON.parse\<close> returns, the components
  of a point, the arguments handed to the search engine.  A finite number is the rational it
  denotes (every finite double is one; the sign of zero is not modelled); \<^verbatim>\<open>NaN\<close> and the
  two infinities are numbers of their own.  An object is the list of its properties, looked
  up by name (the first entry for a name is the property).
\<close>

datatype jsnum = Fin rat | NaN | PosInfinity | NegInfinity

datatype jsval =
    Undefined
  | Null
  | Bool bool
  | Num jsnum
  | Str string
  | Arr "jsval list"
  | Obj "(string \<times> jsval) list"

text \<open>A number with an integer value: counts, labels, seeds.\<close>

definition num :: "int \<Rightarrow> jsval" where
  "num n = Num (Fin (of_int n))"

text \<open>\<^verbatim>\<open>typeof v === 'number'\<close>, \<^verbatim>\<open>isFinite(v)\<close> on a number, \<^verbatim>\<open>Array.isArray(v)\<close>.\<close>

fun is_number :: "jsval \<Rightarrow> bool" where
  "is_number (Num n) = True"
| "is_number v = False"

fun isFinite :: "jsnum \<Rightarrow> bool" where
  "isFinite (Fin r) = True"
| "isFinite n = False"

fun isArray :: "jsval \<Rightarrow> bool" where
  "isArray (Arr xs) = True"
| "isArray v = False"

text \<open>
  Truthiness: \<^verbatim>\<open>undefined\<close>, \<^verbatim>\<open>null\<close>, \<^verbatim>\<open>false\<close>, \<^verbatim>\<open>0\<close>, \<^verbatim>\<open>NaN\<close> and the empty string
  are falsy, everything else is truthy.  \<^verbatim>\<open>a || b\<close> is \<^verbatim>\<open>a\<close> when \<^verbatim>\<open>a\<close> is truthy and
  \<^verbatim>\<open>b\<close> otherwise.
\<close>

fun truthy :: "jsval \<Rightarrow> bool" where
  "truthy Undefined = False"
| "truthy Null = False"
| "truthy (Bool b) = b"
| "truthy (Num (Fin r)) = (r \<noteq> 0)"
| "truthy (Num NaN) = False"
| "truthy (Num PosInfinity) = True"
| "truthy (Num NegInfinity) = True"
| "truthy (Str s) = (s \<noteq> [])"
| "truthy (Arr xs) = True"
| "truthy (Obj ps) = True"

definition js_or :: "jsval \<Rightarrow> jsval \<Rightarrow> jsval" where
  "js_or a b = (if truthy a then a else b)"

text \<open>
  \<^verbatim>\<open>a <= 0\<close> for a number \<^verbatim>\<open>a\<close> (every comparison with \<^verbatim>\<open>NaN\<close> is false), and
  \<^verbatim>\<open>n !== a\<close> for an array length \<^verbatim>\<open>n\<close>.
\<close>

fun le_zero :: "jsnum \<Rightarrow> bool" where
  "le_zero (Fin r) = (r \<le> 0)"
| "le_zero NaN = False"
| "le_zero PosInfinity = False"
| "le_zero NegInfinity = True"

fun length_differs :: "nat \<Rightarrow> jsval \<Rightarrow> bool" where
  "length_differs n (Num (Fin r)) = (of_nat n \<noteq> r)"
| "length_differs n v = True"

text \<open>
  Reading a property \<^verbatim>\<open>v.name\<close>.  On \<^verbatim>\<open>null\<close> and \<^verbatim>\<open>undefined\<close> it throws a
  TypeError (\<open>None\<close>); on an object it is the property or \<^verbatim>\<open>undefined\<close>; on any other
  value it is \<^verbatim>\<open>undefined\<close> for the names the codec reads (\<^verbatim>\<open>vectors\<close>,
  \<^verbatim>\<open>numDimensions\<close>, \<^verbatim>\<open>spaceName\<close>, \<^verbatim>\<open>maxElements\<close>, \<^verbatim>\<open>m\<close>, \<^verbatim>\<open>efConstruction\<close>,
  \<^verbatim>\<open>randomSeed\<close>, \<^verbatim>\<open>label\<close>, \<^verbatim>\<open>point\<close>: none is a built-in property).
\<close>

fun get_prop :: "jsval \<Rightarrow> string \<Rightarrow> jsval option" where
  "get_prop Undefined name = None"
| "get_prop Null name = None"
| "get_prop (Obj ps) name = Some (case map_of ps name of Some v \<Rightarrow> v | None \<Rightarrow> Undefined)"
| "get_prop v name = Some Undefined"

text \<open>
  What \<^verbatim>\<open>JSON.parse\<close> reads back from the text \<^verbatim>\<open>JSON.stringify\<close> writes for a value:
  a finite number, a string, a boolean and \<^verbatim>\<open>null\<close> are kept; \<^verbatim>\<open>NaN\<close> and the infinities
  are written as \<^verbatim>\<open>null\<close>; \<^verbatim>\<open>undefined\<close> is written as \<^verbatim>\<open>null\<close> inside an array and the
  property holding it is left out of an object.
\<close>

fun json_text_value :: "jsval \<Rightarrow> jsval" where
  "json_text_value Undefined = Null"
| "json_text_value Null = Null"
| "json_text_value (Bool b) = Bool b"
| "json_text_value (Num (Fin r)) = Num (Fin r)"
| "json_text_value (Num n) = Null"
| "json_text_value (Str s) = Str s"
| "json_text_value (Arr xs) = Arr (map json_text_value xs)"
| "json_text_value (Obj ps) =
     Obj (map (\<lambda>p. (fst p, json_text_value (snd p))) (filter (\<lambda>p. snd p \<noteq> Undefined) ps))"

section \<open>Errors\<close>

text \<open>
  Every \<^verbatim>\<open>throw new Error(...)\<close> of \<^verbatim>\<open>index.js\<close> is a constructor, named after its
  message and carrying the values the message interpolates; an error the code catches and
  throws again under a longer message wraps the error it caught.  The last four are thrown
  by the runtime and by the collaborators, not by \<^verbatim>\<open>index.js\<close>.
\<close>

datatype error =
    IndexRequired                     \<comment> \<open>Index parameter is required\<close>
  | MissingMethods                    \<comment> \<open>Invalid index object: missing required methods\<close>
  | FilenameNotString                 \<comment> \<open>Filename must be a non-empty string\<close>
  | FilenameEmpty                     \<comment> \<open>Filename cannot be empty\<close>
  | EmptyIndex                        \<comment> \<open>Cannot save empty index (no vectors added)\<close>
  | ExtractFailed error               \<comment> \<open>Failed to extract vectors from index: ...\<close>
  | WriteJSONFailed error             \<comment> \<open>Failed to write JSON file: ...\<close>
  | WriteBinaryFailed error           \<comment> \<open>Failed to write binary file: ...\<close>
  | DimensionMismatch int nat         \<comment> \<open>Vector dimension mismatch: expected ..., got ...\<close>
  | InvalidVectorValue jsval          \<comment> \<open>Invalid vector value: ...\<close>
  | InvalidJSON                       \<comment> \<open>Invalid JSON file: ...\<close>
  | MissingVectors                    \<comment> \<open>Invalid index file format: missing or invalid vectors array\<close>
  | InvalidNumDimensionsText          \<comment> \<open>Invalid index file format: invalid numDimensions\<close>
  | InvalidSpaceName jsval            \<comment> \<open>Invalid spaceName: ... Must be 'l2', 'ip', or 'cosine'\<close>
  | InvalidLabel jsval                \<comment> \<open>Invalid label: ... Must be a number\<close>
  | InvalidVector jsval               \<comment> \<open>Invalid vector: expected array of length ...\<close>
  | RecreateFailed error              \<comment> \<open>Failed to recreate index: ...\<close>
  | FileTooSmall nat                  \<comment> \<open>File too small to be a valid index file (... bytes, minimum 40 bytes)\<close>
  | UnsupportedVersion int            \<comment> \<open>Unsupported binary format version: ... Expected version 1\<close>
  | HeaderEOF                         \<comment> \<open>Unexpected end of file while reading header\<close>
  | InvalidNumDimensions int          \<comment> \<open>Invalid numDimensions: ...\<close>
  | InvalidNumVectors int             \<comment> \<open>Invalid numVectors: ...\<close>
  | SizeMismatch int nat              \<comment> \<open>File size mismatch: expected ... bytes, got ... bytes\<close>
  | VectorEOF int                     \<comment> \<open>Unexpected end of file while reading vector ...\<close>
  | VectorDimEOF int int              \<comment> \<open>Unexpected end of file while reading vector ..., dimension ...\<close>
  | TypeError                         \<comment> \<open>a property of null or undefined is read, or a non-function is called\<close>
  | ValueOutOfRange int               \<comment> \<open>Buffer: the value written does not fit the field\<close>
  | OffsetOutOfRange nat              \<comment> \<open>Buffer: the access at this offset leaves the buffer\<close>
  | InvalidBufferSize int             \<comment> \<open>Buffer: no buffer of this size can be allocated\<close>
  | Thrown string                     \<comment> \<open>an exception of the index or of the engine, with its message\<close>

text \<open>Sequencing of steps that may throw, and \<^verbatim>\<open>try { ... } catch (error) { throw new Error(...) }\<close>.\<close>

definition and_then :: "error + 'a \<Rightarrow> ('a \<Rightarrow> error + 'b) \<Rightarrow> error + 'b" where
  "and_then r f = (case r of Inl e \<Rightarrow> Inl e | Inr x \<Rightarrow> f x)"

definition rethrow :: "(error \<Rightarrow> error) \<Rightarrow> error + 'a \<Rightarrow> error + 'a" where
  "rethrow wrap r = (case r of Inl e \<Rightarrow> Inl (wrap e) | Inr x \<Rightarrow> Inr x)"

section \<open>The runtime and the collaborators\<close>

text \<open>
  What the code takes from Node and cannot be computed here is a parameter: the bytes an
  uninitialised buffer holds (\<^verbatim>\<open>Buffer.allocUnsafe\<close> does not clear it), the largest size a
  buffer may have, and the conversion between a number and the four bytes of the IEEE
  binary32 value nearest to it (\<^verbatim>\<open>writeFloatLE\<close>, \<^verbatim>\<open>readFloatLE\<close>).  So
  \<open>ofFloat32 rt (toFloat32 rt r)\<close> is the number \<open>r\<close> at 32-bit precision.
\<close>

type_synonym byte = "8 word"
type_synonym buffer = "byte list"

record runtime =
  memory :: "nat \<Rightarrow> byte"
  kMaxLength :: int
  toFloat32 :: "rat \<Rightarrow> 32 word"
  ofFloat32 :: "32 word \<Rightarrow> jsnum"

text \<open>
  The search engine (\<^verbatim>\<open>hnswlib.HierarchicalNSW\<close>) is not part of the repository.  The
  loaders act on it through three calls: the constructor
  \<^verbatim>\<open>new HierarchicalNSW(spaceName, numDimensions, '')\<close>, \<^verbatim>\<open>initIndex\<close> and \<^verbatim>\<open>addPoint\<close>.
  The state of the index a loader builds is the list of the calls it has completed on it, in
  order; the engine decides, from that list and the next call, whether the call returns
  (\<open>None\<close>) or throws (\<open>Some\<close> of the exception's message).
\<close>

datatype call =
    New jsval jsval
  | InitIndex jsval jsval jsval jsval
  | AddPoint jsval jsval bool

type_synonym engine = "call list \<Rightarrow> call \<Rightarrow> string option"

definition invoke :: "engine \<Rightarrow> call list \<Rightarrow> call \<Rightarrow> error + call list" where
  "invoke eng calls c =
     (case eng calls c of Some msg \<Rightarrow> Inl (Thrown msg) | None \<Rightarrow> Inr (calls @ [c]))"

text \<open>
  The index handed to the save path is any object.  Each of the seven methods the spec's
  adapter lists is either absent (\<open>None\<close>: \<^verbatim>\<open>typeof index.f !== 'function'\<close>) or a
  function; for the five the save path calls, the function's outcome is given: what it
  returns or the exception it throws.  \<^verbatim>\<open>getPoint\<close> gives the components of the point
  (of the array, or of the \<^verbatim>\<open>Float32Array\<close> that \<^verbatim>\<open>Array.from\<close> turns into one).
\<close>

record index_obj =
  getNumDimensions :: "(error + int) option"
  getCurrentCount :: "(error + int) option"
  getUsedLabels :: "(error + int list) option"
  getPoint :: "(int \<Rightarrow> error + jsval list) option"
  getMaxElements :: "(error + int) option"
  initIndex :: "unit option"
  addPoint :: "unit option"

definition call_method :: "(error + 'a) option \<Rightarrow> error + 'a" where
  "call_method f = (case f of None \<Rightarrow> Inl TypeError | Some r \<Rightarrow> r)"

text \<open>
  The caller's \<^verbatim>\<open>metadata\<close> object: each property is absent or holds a value of its
  documented type.  \<^verbatim>\<open>p || d\<close> on such a property: the default \<open>d\<close> when the property is
  absent, and also when it is \<^verbatim>\<open>0\<close> or the empty string.
\<close>

record metadata_in =
  spaceName_in :: "string option"
  maxElements_in :: "int option"
  m_in :: "int option"
  efConstruction_in :: "int option"
  randomSeed_in :: "int option"

definition or_number :: "int option \<Rightarrow> int \<Rightarrow> int" where
  "or_number p d = (case p of None \<Rightarrow> d | Some v \<Rightarrow> if v \<noteq> 0 then v else d)"

definition or_string :: "string option \<Rightarrow> string \<Rightarrow> string" where
  "or_string p d = (case p of None \<Rightarrow> d | Some v \<Rightarrow> if v \<noteq> [] then v else d)"

text \<open>The metadata a loader returns beside the index.\<close>

record metadata =
  spaceName :: jsval
  numDimensions :: jsval
  maxElements :: jsval
  m :: jsval
  efConstruction :: jsval
  randomSeed :: jsval

section \<open>Buffers\<close>

text \<open>
  \<^verbatim>\<open>Buffer.allocUnsafe(n)\<close>: a buffer of \<open>n\<close> bytes holding whatever the memory held.
\<close>

definition allocUnsafe :: "runtime \<Rightarrow> int \<Rightarrow> error + buffer" where
  "allocUnsafe rt n =
     (if n < 0 \<or> kMaxLength rt < n then Inl (InvalidBufferSize n)
      else Inr (map (memory rt) [0..<nat n]))"

text \<open>
  The writes check the value, then the offset, and store the bytes in place, the least
  significant byte first; \<^verbatim>\<open>fill(b, start, end)\<close> sets the bytes from \<open>start\<close> up to
  \<open>end\<close> (here \<open>stop\<close>) to \<open>b\<close>.
\<close>

definition writeUInt8 :: "int \<Rightarrow> nat \<Rightarrow> buffer \<Rightarrow> error + buffer" where
  "writeUInt8 v offset buffer =
     (if v < 0 \<or> 255 < v then Inl (ValueOutOfRange v)
      else if length buffer \<le> offset then Inl (OffsetOutOfRange offset)
      else Inr (buffer[offset := word_of_int v]))"

definition store4 :: "int \<Rightarrow> nat \<Rightarrow> buffer \<Rightarrow> buffer" where
  "store4 v offset buffer =
     buffer[offset := word_of_int v,
            offset + 1 := word_of_int (v div 2 ^ 8),
            offset + 2 := word_of_int (v div 2 ^ 16),
            offset + 3 := word_of_int (v div 2 ^ 24)]"

definition writeUInt32LE :: "int \<Rightarrow> nat \<Rightarrow> buffer \<Rightarrow> error + buffer" where
  "writeUInt32LE v offset buffer =
     (if v < 0 \<or> 4294967295 < v then Inl (ValueOutOfRange v)
      else if length buffer < offset + 4 then Inl (OffsetOutOfRange offset)
      else Inr (store4 v offset buffer))"

definition writeFloatLE :: "runtime \<Rightarrow> rat \<Rightarrow> nat \<Rightarrow> buffer \<Rightarrow> error + buffer" where
  "writeFloatLE rt r offset buffer =
     (if length buffer < offset + 4 then Inl (OffsetOutOfRange offset)
      else Inr (store4 (uint (toFloat32 rt r)) offset buffer))"

definition fill :: "byte \<Rightarrow> nat \<Rightarrow> nat \<Rightarrow> buffer \<Rightarrow> error + buffer" where
  "fill b start stop buffer =
     (if length buffer < stop then Inl (OffsetOutOfRange stop)
      else Inr (take start buffer @ replicate (stop - start) b @ drop stop buffer))"

text \<open>The reads check the offset and never look outside the buffer.\<close>

definition readUInt8 :: "buffer \<Rightarrow> nat \<Rightarrow> error + int" where
  "readUInt8 buffer offset =
     (if length buffer \<le> offset then Inl (OffsetOutOfRange offset)
      else Inr (uint (buffer ! offset)))"

definition load4 :: "buffer \<Rightarrow> nat \<Rightarrow> int" where
  "load4 buffer offset =
     uint (buffer ! offset) + uint (buffer ! (offset + 1)) * 2 ^ 8
       + uint (buffer ! (offset + 2)) * 2 ^ 16 + uint (buffer ! (offset + 3)) * 2 ^ 24"

definition readUInt32LE :: "buffer \<Rightarrow> nat \<Rightarrow> error + int" where
  "readUInt32LE buffer offset =
     (if length buffer < offset + 4 then Inl (OffsetOutOfRange offset)
      else Inr (load4 buffer offset))"

definition readFloatLE :: "runtime \<Rightarrow> buffer \<Rightarrow> nat \<Rightarrow> error + jsnum" where
  "readFloatLE rt buffer offset =
     (if length buffer < offset + 4 then Inl (OffsetOutOfRange offset)
      else Inr (ofFloat32 rt (word_of_int (load4 buffer offset))))"

section \<open>The logger slot\<close>

text \<open>
  \<^verbatim>\<open>index.js\<close> keeps one module-level variable \<^verbatim>\<open>logger\<close>, initially
  \<^verbatim>\<open>defaultLogger = { log: () => {}, error: console.error }\<close>.  A logger object is a
  finite map from property names to the functions stored under them; a function value is
  either one of the two built-in ones or a function of the caller, told apart by a number.
\<close>

datatype logfn = NoOp | ConsoleError | UserFn nat

type_synonym logger_obj = "string \<rightharpoonup> logfn"

definition defaultLogger :: logger_obj where
  "defaultLogger = [''log'' \<mapsto> NoOp, ''error'' \<mapsto> ConsoleError]"

text \<open>
  \<^verbatim>\<open>logger = { ...defaultLogger, ...customLogger }\<close>: the object spread copies the
  properties of \<^verbatim>\<open>defaultLogger\<close>, then those of the argument over them.  The second
  parameter is the value of the module variable before the call, the result its value after
  the call (a \<^verbatim>\<open>null\<close> or \<^verbatim>\<open>undefined\<close> argument spreads no property: the empty map).
\<close>

definition setLogger :: "logger_obj \<Rightarrow> logger_obj \<Rightarrow> logger_obj" where
  "setLogger customLogger logger = defaultLogger ++ customLogger"

text \<open>
  The notifications \<^verbatim>\<open>logger.log(...)\<close> and \<^verbatim>\<open>logger.error(...)\<close>: a call of the value
  stored under the property.  When no function is stored there (the property is missing,
  or holds \<^verbatim>\<open>null\<close> or any other value that is not a function) the call throws a
  TypeError; the two built-in functions return; a function of the caller returns or throws,
  and \<open>throws k\<close> is the message of the exception that function number \<open>k\<close> throws, if it
  throws one.
\<close>

definition call_logger :: "(nat \<Rightarrow> string option) \<Rightarrow> logger_obj \<Rightarrow> string \<Rightarrow> error + unit" where
  "call_logger throws logger name =
     (case logger name of
        None \<Rightarrow> Inl TypeError
      | Some NoOp \<Rightarrow> Inr ()
      | Some ConsoleError \<Rightarrow> Inr ()
      | Some (UserFn k) \<Rightarrow> (case throws k of None \<Rightarrow> Inr () | Some msg \<Rightarrow> Inl (Thrown msg)))"

section \<open>Validation and extraction\<close>

text \<open>
  \<^verbatim>\<open>validateIndex\<close>: \<^verbatim>\<open>!index\<close> is the missing index (\<open>None\<close>); then the four
  \<^verbatim>\<open>typeof index.f !== 'function'\<close> tests, on the methods the code names.
\<close>

definition validateIndex :: "index_obj option \<Rightarrow> error + unit" where
  "validateIndex index =
     (case index of
        None \<Rightarrow> Inl IndexRequired
      | Some idx \<Rightarrow>
          if getNumDimensions idx = None \<or> getCurrentCount idx = None
             \<or> getUsedLabels idx = None \<or> getPoint idx = None
          then Inl MissingMethods
          else Inr ())"

text \<open>
  \<^verbatim>\<open>validateFilename\<close> on a string: the empty string is falsy; \<^verbatim>\<open>trim()\<close> removes the
  white space at both ends, so the trimmed string is empty when every character is white
  space (of the characters below 256: tab, line feed, vertical tab, form feed, carriage
  return, space and the no-break space).
\<close>

definition is_space :: "char \<Rightarrow> bool" where
  "is_space c = (of_char c \<in> {9, 10, 11, 12, 13, 32, 160 :: nat})"

definition validateFilename :: "string \<Rightarrow> error + unit" where
  "validateFilename filename =
     (if filename = [] then Inl FilenameNotString
      else if list_all is_space filename then Inl FilenameEmpty
      else Inr ())"

text \<open>
  \<^verbatim>\<open>extractVectorsFromIndex\<close>: the loop over the labels in use, stopping at the first
  exception; any exception is thrown again as \<open>ExtractFailed\<close>.
\<close>

fun extract_points ::
  "index_obj \<Rightarrow> int list \<Rightarrow> (int \<times> jsval list) list \<Rightarrow> error + (int \<times> jsval list) list" where
  "extract_points index [] vectors = Inr vectors"
| "extract_points index (label # rest) vectors =
     (case getPoint index of
        None \<Rightarrow> Inl TypeError
      | Some f \<Rightarrow>
          (case f label of
             Inl e \<Rightarrow> Inl e
           | Inr point \<Rightarrow> extract_points index rest (vectors @ [(label, point)])))"

definition extractVectorsFromIndex :: "index_obj \<Rightarrow> error + (int \<times> jsval list) list" where
  "extractVectorsFromIndex index =
     rethrow ExtractFailed
       (and_then (call_method (getUsedLabels index)) (\<lambda>usedLabels.
          extract_points index usedLabels []))"

section \<open>The text codec\<close>

text \<open>
  \<^verbatim>\<open>saveIndexJSON\<close> builds the document \<^verbatim>\<open>data\<close> and writes
  \<^verbatim>\<open>JSON.stringify(data, null, 2)\<close>.  The model returns the file as \<^verbatim>\<open>JSON.parse\<close>
  reads it.  \<^verbatim>\<open>index.getMaxElements()\<close> is called only when \<^verbatim>\<open>metadata.maxElements\<close> is
  falsy, and outside the \<^verbatim>\<open>try\<close>.  (The file system is not modelled: \<^verbatim>\<open>writeFile\<close>
  succeeds.  The notification \<^verbatim>\<open>logger.log(...)\<close> that follows the write is part of
  \<open>save_body\<close> below.)
\<close>

definition maxElements_or_index :: "metadata_in \<Rightarrow> index_obj \<Rightarrow> error + int" where
  "maxElements_or_index metadata index =
     (case maxElements_in metadata of
        None \<Rightarrow> call_method (getMaxElements index)
      | Some v \<Rightarrow> if v \<noteq> 0 then Inr v else call_method (getMaxElements index))"

definition vector_entry :: "int \<times> jsval list \<Rightarrow> jsval" where
  "vector_entry v = Obj [(''label'', num (fst v)), (''point'', Arr (snd v))]"

definition saveIndexJSON ::
  "index_obj \<Rightarrow> metadata_in \<Rightarrow> int \<Rightarrow> (int \<times> jsval list) list \<Rightarrow> error + jsval" where
  "saveIndexJSON index metadata numDims vectors =
     and_then (maxElements_or_index metadata index) (\<lambda>maxElems.
       let data = Obj
         [(''version'', num 1),
          (''spaceName'', Str (or_string (spaceName_in metadata) ''l2'')),
          (''numDimensions'', num numDims),
          (''maxElements'', num maxElems),
          (''m'', num (or_number (m_in metadata) 16)),
          (''efConstruction'', num (or_number (efConstruction_in metadata) 200)),
          (''randomSeed'', num (or_number (randomSeed_in metadata) 100)),
          (''numVectors'', num (int (length vectors))),
          (''vectors'', Arr (map vector_entry vectors))]
       in Inr (json_text_value data))"

text \<open>
  \<^verbatim>\<open>loadIndexJSON\<close>.  The content of the file is \<open>None\<close> when \<^verbatim>\<open>JSON.parse\<close> rejects it.
  The three structural checks come first; the \<^verbatim>\<open>try\<close> block then creates the index,
  initialises it and walks the \<^verbatim>\<open>vectors\<close> array, checking each entry just before it is
  inserted; its last statement before the \<^verbatim>\<open>return\<close> is the notification
  \<^verbatim>\<open>logger.log(...)\<close>.  The result is the list of the calls completed on the engine and
  the outcome: the metadata, or the error thrown.
\<close>

fun add_vectors :: "engine \<Rightarrow> jsval \<Rightarrow> jsval list \<Rightarrow> call list \<Rightarrow> call list \<times> (error + unit)" where
  "add_vectors eng numDims [] calls = (calls, Inr ())"
| "add_vectors eng numDims (entry # rest) calls =
     (case get_prop entry ''label'' of
        None \<Rightarrow> (calls, Inl TypeError)
      | Some label \<Rightarrow>
          (case get_prop entry ''point'' of
             None \<Rightarrow> (calls, Inl TypeError)
           | Some point \<Rightarrow>
               if \<not> is_number label then (calls, Inl (InvalidLabel label))
               else
                 (case point of
                    Arr components \<Rightarrow>
                      if length_differs (length components) numDims
                      then (calls, Inl (InvalidVector numDims))
                      else
                        (case invoke eng calls (AddPoint point label False) of
                           Inl e \<Rightarrow> (calls, Inl e)
                         | Inr calls' \<Rightarrow> add_vectors eng numDims rest calls')
                  | _ \<Rightarrow> (calls, Inl (InvalidVector numDims)))))"

definition recreate_text ::
  "engine \<Rightarrow> (nat \<Rightarrow> string option) \<Rightarrow> logger_obj \<Rightarrow> jsval \<Rightarrow> jsval list
     \<Rightarrow> call list \<times> (error + metadata)" where
  "recreate_text eng throws logger data vectors =
     (case (get_prop data ''spaceName'', get_prop data ''numDimensions'',
            get_prop data ''maxElements'', get_prop data ''m'',
            get_prop data ''efConstruction'', get_prop data ''randomSeed'') of
        (Some sn, Some nd, Some me, Some mm, Some ef, Some rs) \<Rightarrow>
          (case invoke eng [] (New sn nd) of
             Inl e \<Rightarrow> ([], Inl e)
           | Inr calls \<Rightarrow>
               (case invoke eng calls
                       (InitIndex (js_or me (num 100)) (js_or mm (num 16))
                                  (js_or ef (num 200)) (js_or rs (num 100))) of
                  Inl e \<Rightarrow> (calls, Inl e)
                | Inr calls' \<Rightarrow>
                    (case add_vectors eng nd vectors calls' of
                       (calls'', Inl e) \<Rightarrow> (calls'', Inl e)
                     | (calls'', Inr u) \<Rightarrow>
                         (case call_logger throws logger ''log'' of
                            Inl e \<Rightarrow> (calls'', Inl e)
                          | Inr u \<Rightarrow>
                              (calls'',
                               Inr \<lparr> spaceName = sn, numDimensions = nd,
                                     maxElements = js_or me (num 100), m = js_or mm (num 16),
                                     efConstruction = js_or ef (num 200),
                                     randomSeed = js_or rs (num 100) \<rparr>)))))
      | _ \<Rightarrow> ([], Inl TypeError))"

definition loadIndexJSON ::
  "engine \<Rightarrow> (nat \<Rightarrow> string option) \<Rightarrow> logger_obj \<Rightarrow> jsval option
     \<Rightarrow> call list \<times> (error + metadata)" where
  "loadIndexJSON eng throws logger content =
     (case content of
        None \<Rightarrow> ([], Inl InvalidJSON)
      | Some data \<Rightarrow>
          (case get_prop data ''vectors'' of
             None \<Rightarrow> ([], Inl TypeError)
           | Some vs \<Rightarrow>
               (case vs of
                  Arr vectors \<Rightarrow>
                    (case get_prop data ''numDimensions'' of
                       Some (Num nd) \<Rightarrow>
                         if le_zero nd then ([], Inl InvalidNumDimensionsText)
                         else
                           (case get_prop data ''spaceName'' of
                              None \<Rightarrow> ([], Inl TypeError)
                            | Some sn \<Rightarrow>
                                if \<not> truthy sn \<or> sn \<notin> set [Str ''l2'', Str ''ip'', Str ''cosine'']
                                then ([], Inl (InvalidSpaceName sn))
                                else
                                  (case recreate_text eng throws logger data vectors of
                                     (calls, r) \<Rightarrow> (calls, rethrow RecreateFailed r)))
                     | _ \<Rightarrow> ([], Inl InvalidNumDimensionsText))
                | _ \<Rightarrow> ([], Inl MissingVectors))))"

section \<open>The binary codec\<close>

text \<open>
  \<^verbatim>\<open>saveIndexBinary\<close>.  \<^verbatim>\<open>spaceNameMap[metadata.spaceName || 'l2'] || 0\<close>: a name that is
  not a key of the map gives \<^verbatim>\<open>undefined\<close>, hence code 0.
\<close>

definition spaceNameCode_of :: "metadata_in \<Rightarrow> int" where
  "spaceNameCode_of metadata =
     (case map_of [(''l2'', 0), (''ip'', 1), (''cosine'', 2)]
             (or_string (spaceName_in metadata) ''l2'') of
        None \<Rightarrow> 0
      | Some c \<Rightarrow> if c \<noteq> 0 then c else 0)"

text \<open>
  The two loops of the body.  Each takes the buffer and the offset and returns both; the
  length of the point is checked before the label is written, each component just before
  it is written.
\<close>

fun write_point :: "runtime \<Rightarrow> jsval list \<Rightarrow> buffer \<times> nat \<Rightarrow> error + buffer \<times> nat" where
  "write_point rt [] st = Inr st"
| "write_point rt (v # rest) (buffer, offset) =
     (case v of
        Num (Fin r) \<Rightarrow>
          (case writeFloatLE rt r offset buffer of
             Inl e \<Rightarrow> Inl e
           | Inr buffer' \<Rightarrow> write_point rt rest (buffer', offset + 4))
      | _ \<Rightarrow> Inl (InvalidVectorValue v))"

fun write_vectors ::
  "runtime \<Rightarrow> int \<Rightarrow> (int \<times> jsval list) list \<Rightarrow> buffer \<times> nat \<Rightarrow> error + buffer \<times> nat" where
  "write_vectors rt numDims [] st = Inr st"
| "write_vectors rt numDims ((label, point) # rest) (buffer, offset) =
     (if int (length point) \<noteq> numDims then Inl (DimensionMismatch numDims (length point))
      else
        (case writeUInt32LE label offset buffer of
           Inl e \<Rightarrow> Inl e
         | Inr buffer' \<Rightarrow>
             (case write_point rt point (buffer', offset + 4) of
                Inl e \<Rightarrow> Inl e
              | Inr st \<Rightarrow> write_vectors rt numDims rest st)))"

text \<open>
  The header: version, space code, five 32-bit fields and the vector count, then the
  14 reserved bytes set to zero.  \<^verbatim>\<open>index.getMaxElements()\<close> is called when the header
  reaches \<^verbatim>\<open>maxElements\<close>, inside the \<^verbatim>\<open>try\<close>.
\<close>

definition write_header ::
  "index_obj \<Rightarrow> metadata_in \<Rightarrow> int \<Rightarrow> int \<Rightarrow> buffer \<Rightarrow> error + buffer \<times> nat" where
  "write_header index metadata numDims count buffer =
     (let reservedSize = 14; offset = 0 in
      and_then (writeUInt8 1 offset buffer) (\<lambda>buffer. let offset = offset + 1 in
      and_then (writeUInt8 (spaceNameCode_of metadata) offset buffer) (\<lambda>buffer. let offset = offset + 1 in
      and_then (writeUInt32LE numDims offset buffer) (\<lambda>buffer. let offset = offset + 4 in
      and_then (maxElements_or_index metadata index) (\<lambda>maxElems.
      and_then (writeUInt32LE maxElems offset buffer) (\<lambda>buffer. let offset = offset + 4 in
      and_then (writeUInt32LE (or_number (m_in metadata) 16) offset buffer) (\<lambda>buffer. let offset = offset + 4 in
      and_then (writeUInt32LE (or_number (efConstruction_in metadata) 200) offset buffer) (\<lambda>buffer. let offset = offset + 4 in
      and_then (writeUInt32LE (or_number (randomSeed_in metadata) 100) offset buffer) (\<lambda>buffer. let offset = offset + 4 in
      and_then (writeUInt32LE count offset buffer) (\<lambda>buffer. let offset = offset + 4 in
      and_then (fill 0 offset (offset + reservedSize) buffer) (\<lambda>buffer. let offset = offset + reservedSize in
      Inr (buffer, offset))))))))))))"

text \<open>
  The model returns the buffer handed to \<^verbatim>\<open>fs.writeFile\<close> (the file system is not
  modelled: the write succeeds; the notification \<^verbatim>\<open>logger.log(...)\<close> that follows the
  write is part of \<open>save_body\<close> below).
\<close>

definition saveIndexBinary ::
  "runtime \<Rightarrow> index_obj \<Rightarrow> metadata_in \<Rightarrow> int \<Rightarrow> (int \<times> jsval list) list \<Rightarrow> error + buffer" where
  "saveIndexBinary rt index metadata numDims vectors =
     (let headerSize = 40;
          vectorSize = 4 + numDims * 4;
          bufferSize = headerSize + int (length vectors) * vectorSize
      in rethrow WriteBinaryFailed
           (and_then (allocUnsafe rt bufferSize) (\<lambda>buffer.
            and_then (write_header index metadata numDims (int (length vectors)) buffer) (\<lambda>st.
            and_then (write_vectors rt numDims vectors st) (\<lambda>st.
            Inr (fst st))))))"

text \<open>
  \<^verbatim>\<open>loadIndexBinary\<close>, first part: the size test, the header fields and the four checks
  on them.  No call to the engine is made here.
\<close>

record header =
  h_spaceName :: string
  h_numDimensions :: int
  h_maxElements :: int
  h_m :: int
  h_efConstruction :: int
  h_randomSeed :: int
  h_numVectors :: int
  h_offset :: nat

definition spaceName_of_code :: "int \<Rightarrow> string" where
  "spaceName_of_code c =
     (let spaceNameMap = [''l2'', ''ip'', ''cosine''] in
      if 0 \<le> c \<and> c < int (length spaceNameMap) \<and> spaceNameMap ! nat c \<noteq> []
      then spaceNameMap ! nat c else ''l2'')"

definition read_header :: "buffer \<Rightarrow> error + header" where
  "read_header buffer =
     (let minSize = 40 in
      if length buffer < minSize then Inl (FileTooSmall (length buffer))
      else
        let offset = 0 in
        and_then (readUInt8 buffer offset) (\<lambda>version. let offset = offset + 1 in
        if version \<noteq> 1 then Inl (UnsupportedVersion version)
        else if length buffer \<le> offset then Inl HeaderEOF
        else
        and_then (readUInt8 buffer offset) (\<lambda>spaceNameCode. let offset = offset + 1 in
        if length buffer < offset + 24 then Inl HeaderEOF
        else
        and_then (readUInt32LE buffer offset) (\<lambda>numDims. let offset = offset + 4 in
        and_then (readUInt32LE buffer offset) (\<lambda>maxElems. let offset = offset + 4 in
        and_then (readUInt32LE buffer offset) (\<lambda>mm. let offset = offset + 4 in
        and_then (readUInt32LE buffer offset) (\<lambda>efc. let offset = offset + 4 in
        and_then (readUInt32LE buffer offset) (\<lambda>seed. let offset = offset + 4 in
        and_then (readUInt32LE buffer offset) (\<lambda>numVecs. let offset = offset + 4 in
        let offset = offset + 14 in
        if numDims \<le> 0 \<or> 100000 < numDims then Inl (InvalidNumDimensions numDims)
        else if numVecs < 0 \<or> 100000000 < numVecs then Inl (InvalidNumVectors numVecs)
        else
          let vectorSize = 4 + numDims * 4;
              expectedSize = 40 + numVecs * vectorSize
          in if int (length buffer) < expectedSize
             then Inl (SizeMismatch expectedSize (length buffer))
             else Inr \<lparr> h_spaceName = spaceName_of_code spaceNameCode,
                        h_numDimensions = numDims, h_maxElements = maxElems, h_m = mm,
                        h_efConstruction = efc, h_randomSeed = seed,
                        h_numVectors = numVecs, h_offset = offset \<rparr>)))))))))"

text \<open>
  Second part, the \<^verbatim>\<open>try\<close> block: the index is created and initialised, then each
  record is read (label, then the components one by one, each read behind its own test of
  the offset) and inserted; the notification \<^verbatim>\<open>logger.log(...)\<close> is the last statement
  before the \<^verbatim>\<open>return\<close>.
\<close>

function read_point ::
  "runtime \<Rightarrow> buffer \<Rightarrow> int \<Rightarrow> int \<Rightarrow> int \<Rightarrow> nat \<Rightarrow> jsval list \<Rightarrow> error + jsval list \<times> nat" where
  "read_point rt buffer numDims i j offset point =
     (if j < numDims then
        if length buffer < offset + 4 then Inl (VectorDimEOF i j)
        else
          (case readFloatLE rt buffer offset of
             Inl e \<Rightarrow> Inl e
           | Inr v \<Rightarrow> read_point rt buffer numDims i (j + 1) (offset + 4) (point @ [Num v]))
      else Inr (point, offset))"
  by pat_completeness auto
termination
  by (relation "measure (\<lambda>(rt, buffer, numDims, i, j, offset, point). nat (numDims - j))") auto

function read_vectors ::
  "runtime \<Rightarrow> engine \<Rightarrow> buffer \<Rightarrow> int \<Rightarrow> int \<Rightarrow> int \<Rightarrow> nat \<Rightarrow> call list
     \<Rightarrow> call list \<times> (error + unit)" where
  "read_vectors rt eng buffer numDims numVecs i offset calls =
     (if i < numVecs then
        if length buffer < offset + 4 then (calls, Inl (VectorEOF i))
        else
          (case readUInt32LE buffer offset of
             Inl e \<Rightarrow> (calls, Inl e)
           | Inr label \<Rightarrow>
               (case read_point rt buffer numDims i 0 (offset + 4) [] of
                  Inl e \<Rightarrow> (calls, Inl e)
                | Inr (point, offset') \<Rightarrow>
                    (case invoke eng calls (AddPoint (Arr point) (num label) False) of
                       Inl e \<Rightarrow> (calls, Inl e)
                     | Inr calls' \<Rightarrow>
                         read_vectors rt eng buffer numDims numVecs (i + 1) offset' calls')))
      else (calls, Inr ()))"
  by pat_completeness auto
termination
  by (relation "measure (\<lambda>(rt, eng, buffer, numDims, numVecs, i, offset, calls). nat (numVecs - i))")
    auto

declare read_point.simps [simp del] read_vectors.simps [simp del]

definition recreate_binary ::
  "runtime \<Rightarrow> engine \<Rightarrow> (nat \<Rightarrow> string option) \<Rightarrow> logger_obj \<Rightarrow> buffer \<Rightarrow> header
     \<Rightarrow> call list \<times> (error + metadata)" where
  "recreate_binary rt eng throws logger buffer h =
     (case invoke eng [] (New (Str (h_spaceName h)) (num (h_numDimensions h))) of
        Inl e \<Rightarrow> ([], Inl e)
      | Inr calls \<Rightarrow>
          (case invoke eng calls
                  (InitIndex (num (h_maxElements h)) (num (h_m h))
                             (num (h_efConstruction h)) (num (h_randomSeed h))) of
             Inl e \<Rightarrow> (calls, Inl e)
           | Inr calls' \<Rightarrow>
               (case read_vectors rt eng buffer (h_numDimensions h) (h_numVectors h) 0
                       (h_offset h) calls' of
                  (calls'', Inl e) \<Rightarrow> (calls'', Inl e)
                | (calls'', Inr u) \<Rightarrow>
                    (case call_logger throws logger ''log'' of
                       Inl e \<Rightarrow> (calls'', Inl e)
                     | Inr u \<Rightarrow>
                         (calls'',
                          Inr \<lparr> spaceName = Str (h_spaceName h),
                                numDimensions = num (h_numDimensions h),
                                maxElements = num (h_maxElements h), m = num (h_m h),
                                efConstruction = num (h_efConstruction h),
                                randomSeed = num (h_randomSeed h) \<rparr>)))))"

definition loadIndexBinary ::
  "runtime \<Rightarrow> engine \<Rightarrow> (nat \<Rightarrow> string option) \<Rightarrow> logger_obj \<Rightarrow> buffer
     \<Rightarrow> call list \<times> (error + metadata)" where
  "loadIndexBinary rt eng throws logger buffer =
     (case read_header buffer of
        Inl e \<Rightarrow> ([], Inl e)
      | Inr h \<Rightarrow>
          (case recreate_binary rt eng throws logger buffer h of
             (calls, r) \<Rightarrow> (calls, rethrow RecreateFailed r)))"

section \<open>The save entry point\<close>

text \<open>
  \<^verbatim>\<open>saveIndexToFile\<close>: the two validations, then the \<^verbatim>\<open>try\<close> block (\<open>save_body\<close>): the
  dimension, the count, the test for the empty index, the extraction and the codec chosen
  by the file name.  \<open>saveIndexJSON\<close> and \<open>saveIndexBinary\<close> above give the content
  handed to \<^verbatim>\<open>fs.writeFile\<close>; what the two source functions do after the write, the
  notification \<^verbatim>\<open>logger.log(...)\<close> inside their own \<^verbatim>\<open>try\<close>, is done here.  The
  \<^verbatim>\<open>catch\<close> of the entry point notifies \<^verbatim>\<open>logger.error\<close> and throws the error again
  (an exception of that notification takes its place).  The result is the content of the
  file written, if one was written, and the outcome of the call.
\<close>

datatype file_content = TextFile jsval | BinaryFile buffer

definition endsWith :: "string \<Rightarrow> string \<Rightarrow> bool" where
  "endsWith s suffix = (length suffix \<le> length s \<and> drop (length s - length suffix) s = suffix)"

definition save_body ::
  "runtime \<Rightarrow> (nat \<Rightarrow> string option) \<Rightarrow> logger_obj \<Rightarrow> index_obj \<Rightarrow> string \<Rightarrow> metadata_in
     \<Rightarrow> file_content option \<times> (error + unit)" where
  "save_body rt throws logger idx filename metadata =
     (case call_method (getNumDimensions idx) of
        Inl e \<Rightarrow> (None, Inl e)
      | Inr numDims \<Rightarrow>
          (case call_method (getCurrentCount idx) of
             Inl e \<Rightarrow> (None, Inl e)
           | Inr numVecs \<Rightarrow>
               if numVecs = 0 then (None, Inl EmptyIndex)
               else
                 (case extractVectorsFromIndex idx of
                    Inl e \<Rightarrow> (None, Inl e)
                  | Inr vectors \<Rightarrow>
                      let isBinary = endsWith filename ''.bin'' \<or> endsWith filename ''.dat'' in
                      if isBinary
                      then
                        (case saveIndexBinary rt idx metadata numDims vectors of
                           Inl e \<Rightarrow> (None, Inl e)
                         | Inr buffer \<Rightarrow>
                             (Some (BinaryFile buffer),
                              rethrow WriteBinaryFailed (call_logger throws logger ''log'')))
                      else
                        (case saveIndexJSON idx metadata numDims vectors of
                           Inl e \<Rightarrow> (None, Inl e)
                         | Inr data \<Rightarrow>
                             (Some (TextFile data),
                              rethrow WriteJSONFailed (call_logger throws logger ''log''))))))"

definition saveIndexToFile ::
  "runtime \<Rightarrow> (nat \<Rightarrow> string option) \<Rightarrow> logger_obj \<Rightarrow> index_obj option \<Rightarrow> string
     \<Rightarrow> metadata_in \<Rightarrow> file_content option \<times> (error + unit)" where
  "saveIndexToFile rt throws logger index filename metadata =
     (case validateIndex index of
        Inl e \<Rightarrow> (None, Inl e)
      | Inr u \<Rightarrow>
          (case validateFilename filename of
             Inl e \<Rightarrow> (None, Inl e)
           | Inr u \<Rightarrow>
               (case index of
                  None \<Rightarrow> (None, Inl TypeError)
                | Some idx \<Rightarrow>
                    (case save_body rt throws logger idx filename metadata of
                       (written, Inl e) \<Rightarrow>
                         (case call_logger throws logger ''error'' of
                            Inl e' \<Rightarrow> (written, Inl e')
                          | Inr u \<Rightarrow> (written, Inl e))
                     | (written, Inr u) \<Rightarrow> (written, Inr ())))))"

section \<open>The layout of a binary file and the replay of its records\<close>

text \<open>
  The spec describes the loaders in two steps: the codec decodes the records, the
  rehydrator initialises a fresh index and inserts the records in file order, stopping at
  the first insertion the engine refuses.  \<open>replay\<close> is that second step on a list of
  calls; \<open>decoded_records\<close> are the insertions the layout of the spec places in a buffer:
  record \<open>k\<close> starts at \<open>offset + k * (4 + 4 * numDims)\<close>, its label first, then its
  components.  \<open>finish\<close> is the end of a load: an error of the replay is thrown again
  as \<open>RecreateFailed\<close>; after the last insertion the logger is notified and the metadata
  returned.  (The loaders of the code are compared with them below.)
\<close>

fun replay :: "engine \<Rightarrow> call list \<Rightarrow> call list \<Rightarrow> call list \<times> (error + unit)" where
  "replay eng calls [] = (calls, Inr ())"
| "replay eng calls (c # cs) =
     (case invoke eng calls c of
        Inl e \<Rightarrow> (calls, Inl e)
      | Inr calls' \<Rightarrow> replay eng calls' cs)"

definition finish ::
  "(nat \<Rightarrow> string option) \<Rightarrow> logger_obj \<Rightarrow> metadata \<Rightarrow> call list \<times> (error + unit)
     \<Rightarrow> call list \<times> (error + metadata)" where
  "finish throws logger md r =
     (case r of
        (calls, Inl e) \<Rightarrow> (calls, Inl (RecreateFailed e))
      | (calls, Inr u) \<Rightarrow>
          (case call_logger throws logger ''log'' of
             Inl e \<Rightarrow> (calls, Inl (RecreateFailed e))
           | Inr u \<Rightarrow> (calls, Inr md)))"

definition decoded_point :: "runtime \<Rightarrow> buffer \<Rightarrow> int \<Rightarrow> nat \<Rightarrow> jsval list" where
  "decoded_point rt buffer numDims offset =
     map (\<lambda>k. Num (ofFloat32 rt (word_of_int (load4 buffer (offset + 4 * k))))) [0..<nat numDims]"

definition decoded_record :: "runtime \<Rightarrow> buffer \<Rightarrow> int \<Rightarrow> nat \<Rightarrow> call" where
  "decoded_record rt buffer numDims offset =
     AddPoint (Arr (decoded_point rt buffer numDims (offset + 4))) (num (load4 buffer offset)) False"

definition decoded_records :: "runtime \<Rightarrow> buffer \<Rightarrow> int \<Rightarrow> nat \<Rightarrow> nat \<Rightarrow> call list" where
  "decoded_records rt buffer numDims offset n =
     map (\<lambda>k. decoded_record rt buffer numDims (offset + k * (4 + 4 * nat numDims))) [0..<n]"

definition header_calls :: "header \<Rightarrow> call list" where
  "header_calls h =
     [New (Str (h_spaceName h)) (num (h_numDimensions h)),
      InitIndex (num (h_maxElements h)) (num (h_m h)) (num (h_efConstruction h))
        (num (h_randomSeed h))]"

definition header_metadata :: "header \<Rightarrow> metadata" where
  "header_metadata h =
     \<lparr> spaceName = Str (h_spaceName h), numDimensions = num (h_numDimensions h),
       maxElements = num (h_maxElements h), m = num (h_m h),
       efConstruction = num (h_efConstruction h), randomSeed = num (h_randomSeed h) \<rparr>"

text \<open>The records an index has received: the label and the point of each insertion.\<close>

fun inserted :: "call list \<Rightarrow> (jsval \<times> jsval) list" where
  "inserted [] = []"
| "inserted (AddPoint point label r # cs) = (label, point) # inserted cs"
| "inserted (c # cs) = inserted cs"

section \<open>The bytes of a binary file and valid records\<close>

text \<open>
  The layout of the spec, written as byte lists, for the comparison with what the encoder
  leaves in its buffer: a 32-bit field is four bytes, least significant first; the header
  is the version byte 1, the space code, six 32-bit fields and 14 zero bytes; a record is
  its label and the binary32 bytes of its components.
\<close>

definition le4 :: "int \<Rightarrow> byte list" where
  "le4 v = [word_of_int v, word_of_int (v div 2 ^ 8), word_of_int (v div 2 ^ 16),
            word_of_int (v div 2 ^ 24)]"


definition float_bytes :: "runtime \<Rightarrow> jsval \<Rightarrow> byte list" where
  "float_bytes rt v = (case v of Num (Fin r) \<Rightarrow> le4 (uint (toFloat32 rt r)) | _ \<Rightarrow> [])"


text \<open>
  A valid record of an index of \<open>numDims\<close> dimensions (the spec's VectorRecord): the
  label is an unsigned 32-bit integer and the point has \<open>numDims\<close> components, each a
  finite number.  The three names of a space kind.
\<close>

definition is_finite_number :: "jsval \<Rightarrow> bool" where
  "is_finite_number v = (case v of Num (Fin r) \<Rightarrow> True | _ \<Rightarrow> False)"

definition valid_record :: "int \<Rightarrow> int \<times> jsval list \<Rightarrow> bool" where
  "valid_record numDims v =
     (0 \<le> fst v \<and> fst v \<le> 4294967295 \<and> int (length (snd v)) = numDims
      \<and> list_all is_finite_number (snd v))"





section \<open>The text loader, step by step\<close>

text \<open>
  For the comparison with \<^verbatim>\<open>loadIndexJSON\<close>: the value of a property the document may
  lack; the three structural checks; a valid entry of the \<^verbatim>\<open>vectors\<close> array (a numeric
  label and a point that is an array of \<open>numDims\<close> elements), the insertion it stands for and
  the error an invalid one raises; the two calls that create and initialise the index and the
  metadata returned, both with the defaults of the code.
\<close>

definition property :: "jsval \<Rightarrow> string \<Rightarrow> jsval" where
  "property v name = (case get_prop v name of Some x \<Rightarrow> x | None \<Rightarrow> Undefined)"

definition passes_checks :: "jsval \<Rightarrow> jsval list \<Rightarrow> bool" where
  "passes_checks data vectors =
     (get_prop data ''vectors'' = Some (Arr vectors)
      \<and> (case get_prop data ''numDimensions'' of Some (Num nd) \<Rightarrow> \<not> le_zero nd | _ \<Rightarrow> False)
      \<and> (case get_prop data ''spaceName'' of
            Some sn \<Rightarrow> sn \<in> set [Str ''l2'', Str ''ip'', Str ''cosine'']
          | None \<Rightarrow> False))"

definition valid_entry :: "jsval \<Rightarrow> jsval \<Rightarrow> bool" where
  "valid_entry numDims entry =
     (case (get_prop entry ''label'', get_prop entry ''point'') of
        (Some label, Some (Arr components)) \<Rightarrow>
          is_number label \<and> \<not> length_differs (length components) numDims
      | _ \<Rightarrow> False)"

definition entry_call :: "jsval \<Rightarrow> call" where
  "entry_call entry = AddPoint (property entry ''point'') (property entry ''label'') False"

definition entry_error :: "jsval \<Rightarrow> jsval \<Rightarrow> error" where
  "entry_error numDims entry =
     (case get_prop entry ''label'' of
        None \<Rightarrow> TypeError
      | Some label \<Rightarrow> if \<not> is_number label then InvalidLabel label else InvalidVector numDims)"

definition text_calls :: "jsval \<Rightarrow> call list" where
  "text_calls data =
     [New (property data ''spaceName'') (property data ''numDimensions''),
      InitIndex (js_or (property data ''maxElements'') (num 100)) (js_or (property data ''m'') (num 16))
        (js_or (property data ''efConstruction'') (num 200))
        (js_or (property data ''randomSeed'') (num 100))]"

definition text_metadata :: "jsval \<Rightarrow> metadata" where
  "text_metadata data =
     \<lparr> spaceName = property data ''spaceName'', numDimensions = property data ''numDimensions'',
       maxElements = js_or (property data ''maxElements'') (num 100),
       m = js_or (property data ''m'') (num 16),
       efConstruction = js_or (property data ''efConstruction'') (num 200),
       randomSeed = js_or (property data ''randomSeed'') (num 100) \<rparr>"

section \<open>Round trips\<close>



definition saved_document ::
  "string \<Rightarrow> int \<Rightarrow> int \<Rightarrow> int \<Rightarrow> int \<Rightarrow> int \<Rightarrow> (int \<times> jsval list) list \<Rightarrow> jsval" where
  "saved_document sn numDims me mm ef rs vectors =
     Obj [(''version'', num 1), (''spaceName'', Str sn), (''numDimensions'', num numDims),
          (''maxElements'', num me), (''m'', num mm), (''efConstruction'', num ef),
          (''randomSeed'', num rs), (''numVectors'', num (int (length vectors))),
          (''vectors'', Arr (map vector_entry vectors))]"



section \<open>The scenario of the example script\<close>

text \<open>
  The repository's example builds an index of three dimensions with the unit vectors under
  the labels 0, 1, 2 and saves it with \<^verbatim>\<open>spaceName: 'l2', maxElements: 10, m: 16,
  efConstruction: 200, randomSeed: 100\<close>.  The runtime of the scenario converts the two
  components that occur, 0 and 1, as IEEE does (\<^verbatim>\<open>1.0\<close> is \<^verbatim>\<open>0x3F800000\<close>); the
  uninitialised memory holds \<^verbatim>\<open>0xAA\<close>; the engine accepts every call; the functions
  of the caller, if any is installed as logger, return.
\<close>

definition example_runtime :: runtime where
  "example_runtime =
     \<lparr> memory = (\<lambda>i. 170), kMaxLength = 9007199254740991,
       toFloat32 = (\<lambda>r. if r = 1 then 1065353216 else 0),
       ofFloat32 = (\<lambda>w. if w = 1065353216 then Fin 1 else Fin 0) \<rparr>"

definition example_vectors :: "(int \<times> jsval list) list" where
  "example_vectors =
     [(0, [num 1, num 0, num 0]), (1, [num 0, num 1, num 0]), (2, [num 0, num 0, num 1])]"

definition example_index :: index_obj where
  "example_index =
     \<lparr> getNumDimensions = Some (Inr 3), getCurrentCount = Some (Inr 3),
       getUsedLabels = Some (Inr [0, 1, 2]),
       getPoint = Some (\<lambda>label. Inr (map (\<lambda>k. if k = label then num 1 else num 0) [0, 1, 2])),
       getMaxElements = Some (Inr 10), initIndex = Some (), addPoint = Some () \<rparr>"

definition example_metadata :: metadata_in where
  "example_metadata =
     \<lparr> spaceName_in = Some ''l2'', maxElements_in = Some 10, m_in = Some 16,
       efConstruction_in = Some 200, randomSeed_in = Some 100 \<rparr>"

definition accepting :: engine where
  "accepting calls c = None"

definition returning :: "nat \<Rightarrow> string option" where
  "returning k = None"

text \<open>An engine that refuses a label it has already received, and nothing else.\<close>

definition no_duplicates :: engine where
  "no_duplicates calls c =
     (case c of
        AddPoint point label r \<Rightarrow>
          if label \<in> set (map fst (inserted calls)) then Some ''duplicate label'' else None
      | _ \<Rightarrow> None)"

definition example_header :: buffer where
  "example_header =
     [1, 0, 3, 0, 0, 0, 10, 0, 0, 0, 16, 0, 0, 0, 200, 0, 0, 0, 100, 0, 0, 0, 3, 0, 0, 0,
      0, 0, 0, 0, 0, 0, 0, 0, 0, 0, 0, 0, 0, 0]"

definition example_records :: buffer where
  "example_records =
     [0, 0, 0, 0, 0, 0, 128, 63, 0, 0, 0, 0, 0, 0, 0, 0,
      1, 0, 0, 0, 0, 0, 0, 0, 0, 0, 128, 63, 0, 0, 0, 0,
      2, 0, 0, 0, 0, 0, 0, 0, 0, 0, 0, 0, 0, 0, 128, 63]"

text \<open>What the loaders make of the scenario's files: the calls on the engine and the metadata.\<close>

definition example_calls :: "call list" where
  "example_calls =
     [New (Str ''l2'') (num 3),
      InitIndex (num 10) (num 16) (num 200) (num 100),
      AddPoint (Arr [num 1, num 0, num 0]) (num 0) False,
      AddPoint (Arr [num 0, num 1, num 0]) (num 1) False,
      AddPoint (Arr [num 0, num 0, num 1]) (num 2) False]"

definition example_loaded :: metadata where
  "example_loaded =
     \<lparr> spaceName = Str ''l2'', numDimensions = num 3, maxElements = num 10, m = num 16,
       efConstruction = num 200, randomSeed = num 100 \<rparr>"

text \<open>
  Two variants of the scenario's binary file: one with the space code 7 in its second byte,
  one with three bytes after its last record.
\<close>

definition example_unknown_space :: buffer where
  "example_unknown_space = example_header[1 := 7] @ example_records"

definition example_trailing :: buffer where
  "example_trailing = example_header @ example_records @ [1, 2, 3]"


text \<open>
  Four variants of the scenario's text file: one with \<^verbatim>\<open>"m": 0\<close>; one that declares
  \<^verbatim>\<open>"numVectors": 5\<close> and holds three records; one with the properties \<^verbatim>\<open>spaceName\<close>,
  \<^verbatim>\<open>numDimensions\<close>, \<^verbatim>\<open>efConstruction\<close> (50) and \<^verbatim>\<open>vectors\<close> only; one whose second
  record has the label \<^verbatim>\<open>"x"\<close>.
\<close>

definition zero_m_document :: jsval where
  "zero_m_document =
     Obj [(''version'', num 1), (''spaceName'', Str ''l2''), (''numDimensions'', num 3),
          (''maxElements'', num 10), (''m'', num 0), (''efConstruction'', num 200),
          (''randomSeed'', num 100), (''numVectors'', num 3),
          (''vectors'', Arr (map vector_entry example_vectors))]"

definition miscounted_document :: jsval where
  "miscounted_document =
     Obj [(''version'', num 1), (''spaceName'', Str ''l2''), (''numDimensions'', num 3),
          (''maxElements'', num 10), (''m'', num 16), (''efConstruction'', num 200),
          (''randomSeed'', num 100), (''numVectors'', num 5),
          (''vectors'', Arr (map vector_entry example_vectors))]"

definition sparse_document :: jsval where
  "sparse_document =
     Obj [(''spaceName'', Str ''l2''), (''numDimensions'', num 3), (''efConstruction'', num 50),
          (''vectors'', Arr (map vector_entry example_vectors))]"

definition bad_label_document :: jsval where
  "bad_label_document =
     Obj [(''version'', num 1), (''spaceName'', Str ''l2''), (''numDimensions'', num 3),
          (''maxElements'', num 10), (''m'', num 16), (''efConstruction'', num 200),
          (''randomSeed'', num 100), (''numVectors'', num 3),
          (''vectors'',
           Arr [Obj [(''label'', num 0), (''point'', Arr [num 1, num 0, num 0])],
                Obj [(''label'', Str ''x''), (''point'', Arr [num 0, num 1, num 0])],
                Obj [(''label'', num 2), (''point'', Arr [num 0, num 0, num 1])]])]"

text \<open>
  Two variants of the scenario's index: one without \<^verbatim>\<open>initIndex\<close> and \<^verbatim>\<open>addPoint\<close>, one
  without \<^verbatim>\<open>getPoint\<close>.
\<close>

definition reader_index :: index_obj where
  "reader_index = example_index \<lparr> initIndex := None, addPoint := None \<rparr>"

definition pointless_index :: index_obj where
  "pointless_index = example_index \<lparr> getPoint := None \<rparr>"

section \<open>Sequencing and buffer lemmas\<close>

lemma and_then_Inr_iff:
  "and_then r f = Inr y \<longleftrightarrow> (\<exists>x. r = Inr x \<and> f x = Inr y)"
  by (cases r) (simp_all add: and_then_def)

lemma rethrow_Inr_iff: "rethrow w r = Inr y \<longleftrightarrow> r = Inr y"
  by (cases r) (simp_all add: rethrow_def)

lemma length_store4: "length (store4 v offset buffer) = length buffer"
  by (simp add: store4_def)

lemma writeUInt8_length: "writeUInt8 v offset buffer = Inr b \<Longrightarrow> length b = length buffer"
  by (auto simp: writeUInt8_def split: if_splits)

lemma writeUInt32LE_length: "writeUInt32LE v offset buffer = Inr b \<Longrightarrow> length b = length buffer"
  by (auto simp: writeUInt32LE_def length_store4 split: if_splits)

lemma writeFloatLE_length: "writeFloatLE rt r offset buffer = Inr b \<Longrightarrow> length b = length buffer"
  by (auto simp: writeFloatLE_def length_store4 split: if_splits)

lemma fill_length: "start \<le> stop \<Longrightarrow> fill x start stop buffer = Inr b \<Longrightarrow> length b = length buffer"
  by (auto simp: fill_def split: if_splits)

lemma allocUnsafe_length: "allocUnsafe rt n = Inr b \<Longrightarrow> int (length b) = n"
  by (auto simp: allocUnsafe_def split: if_splits)

lemma load4_nonneg: "0 \<le> load4 buffer offset"
  by (simp add: load4_def)

section \<open>The writer keeps the size of the buffer\<close>

lemma write_point_length:
  "write_point rt point (buffer, offset) = Inr (b, off') \<Longrightarrow> length b = length buffer"
proof (induction point arbitrary: buffer offset)
  case Nil
  then show ?case by simp
next
  case (Cons v rest)
  then show ?case
    by (auto split: jsval.splits jsnum.splits sum.splits dest: writeFloatLE_length)
qed

lemma write_vectors_length:
  "write_vectors rt numDims vectors (buffer, offset) = Inr (b, off') \<Longrightarrow> length b = length buffer"
proof (induction vectors arbitrary: buffer offset)
  case Nil
  then show ?case by simp
next
  case (Cons v rest)
  obtain label point where v: "v = (label, point)" by (cases v)
  from Cons.prems v obtain b1 b2 o2 where
    w: "writeUInt32LE label offset buffer = Inr b1"
    and p: "write_point rt point (b1, offset + 4) = Inr (b2, o2)"
    and r: "write_vectors rt numDims rest (b2, o2) = Inr (b, off')"
    by (auto split: if_splits sum.splits)
  from Cons.IH [OF r] write_point_length [OF p] writeUInt32LE_length [OF w]
  show ?case by simp
qed

lemma write_header_length:
  assumes "write_header index metadata numDims count buffer = Inr (b, off)"
  shows "length b = length buffer"
  using assms
  unfolding write_header_def Let_def and_then_Inr_iff
  by (auto dest!: writeUInt8_length writeUInt32LE_length fill_length [rotated])

text \<open>
  Claim C7.  Whenever the binary encoder succeeds on \<open>length vectors\<close> records of
  dimension \<open>numDims\<close>, the buffer it hands to the file system has exactly
  \<open>40 + length vectors * (4 + 4 * numDims)\<close> bytes.  (The scenario of three records of
  dimension three, 88 bytes, is the witness.)
\<close>

theorem saveIndexBinary_length:
  assumes "saveIndexBinary rt index metadata numDims vectors = Inr buffer"
  shows "int (length buffer) = 40 + int (length vectors) * (4 + 4 * numDims)"
proof -
  from assms obtain b0 b1 o1 b2 o2 where
    a: "allocUnsafe rt (40 + int (length vectors) * (4 + numDims * 4)) = Inr b0"
    and h: "write_header index metadata numDims (int (length vectors)) b0 = Inr (b1, o1)"
    and v: "write_vectors rt numDims vectors (b1, o1) = Inr (b2, o2)"
    and e: "buffer = b2"
    unfolding saveIndexBinary_def Let_def rethrow_Inr_iff and_then_Inr_iff by auto
  from allocUnsafe_length [OF a] write_header_length [OF h] write_vectors_length [OF v] e
  show ?thesis by (simp add: mult.commute)
qed

theorem saveIndexBinary_length_witness:
  "saveIndexBinary example_runtime example_index example_metadata 3 example_vectors
     = Inr (example_header @ example_records)
   \<and> int (length (example_header @ example_records)) = 40 + int (length example_vectors) * (4 + 4 * 3)
   \<and> length (example_header @ example_records) = 88"
proof -
  have e: "saveIndexBinary example_runtime example_index example_metadata 3 example_vectors
      = Inr (example_header @ example_records)"
    by code_simp
  have l: "length (example_header @ example_records) = 88"
    by (simp add: example_header_def example_records_def)
  from e saveIndexBinary_length [OF e] l show ?thesis by simp
qed

section \<open>The header checks of the binary loader\<close>

lemma header_offsets:
  "(0::nat) + 1 = 1" "(1::nat) + 1 = 2" "(2::nat) + 4 = 6" "(6::nat) + 4 = 10"
  "(10::nat) + 4 = 14" "(14::nat) + 4 = 18" "(18::nat) + 4 = 22" "(22::nat) + 4 = 26"
  "(26::nat) + 14 = 40"
  by simp_all

lemma read_header_eq:
  assumes "40 \<le> length buffer"
  shows "read_header buffer =
    (if uint (buffer ! 0) \<noteq> 1 then Inl (UnsupportedVersion (uint (buffer ! 0)))
     else if load4 buffer 2 \<le> 0 \<or> 100000 < load4 buffer 2
       then Inl (InvalidNumDimensions (load4 buffer 2))
     else if 100000000 < load4 buffer 22 then Inl (InvalidNumVectors (load4 buffer 22))
     else if int (length buffer) < 40 + load4 buffer 22 * (4 + load4 buffer 2 * 4)
       then Inl (SizeMismatch (40 + load4 buffer 22 * (4 + load4 buffer 2 * 4)) (length buffer))
     else Inr \<lparr> h_spaceName = spaceName_of_code (uint (buffer ! 1)),
                h_numDimensions = load4 buffer 2, h_maxElements = load4 buffer 6,
                h_m = load4 buffer 10, h_efConstruction = load4 buffer 14,
                h_randomSeed = load4 buffer 18, h_numVectors = load4 buffer 22,
                h_offset = 40 \<rparr>)"
proof -
  have nv: "\<not> load4 buffer 22 < 0"
    using load4_nonneg [of buffer 22] by simp
  have ne: "buffer \<noteq> []"
    using assms by auto
  show ?thesis
    unfolding read_header_def Let_def header_offsets
    using assms nv ne
    by (simp add: readUInt8_def readUInt32LE_def and_then_def)
qed

lemma example_header_fields:
  "length example_header = 40" "uint (example_header ! 0) = 1"
  "load4 example_header 2 = 3" "load4 example_header 22 = 3"
  by (simp_all add: example_header_def load4_def)

text \<open>
  Claim C8.  A buffer of at least 40 bytes with version 1, \<open>numDimensions\<close> in
  \<open>(0, 100000]\<close> and \<open>numVectors\<close> at most \<open>100000000\<close>, but shorter than
  \<open>40 + numVectors * (4 + 4 * numDimensions)\<close>, is rejected with the size-mismatch error:
  no call has reached the engine, no record has been read, and the outcome is not the
  fault of a read outside the buffer (\<open>OffsetOutOfRange\<close>), whatever the engine and
  the runtime are.
\<close>

theorem truncated_binary_rejected:
  assumes "40 \<le> length buffer"
    and "uint (buffer ! 0) = 1"
    and "0 < load4 buffer 2" and "load4 buffer 2 \<le> 100000"
    and "load4 buffer 22 \<le> 100000000"
    and "int (length buffer) < 40 + load4 buffer 22 * (4 + 4 * load4 buffer 2)"
  shows "loadIndexBinary rt eng throws logger buffer =
    ([], Inl (SizeMismatch (40 + load4 buffer 22 * (4 + 4 * load4 buffer 2)) (length buffer)))"
  using assms by (simp add: loadIndexBinary_def read_header_eq mult.commute)

theorem truncated_binary_rejected_witness:
  "loadIndexBinary example_runtime accepting returning defaultLogger example_header = ([], Inl (SizeMismatch 88 40))"
proof -
  note f = example_header_fields
  have "loadIndexBinary example_runtime accepting returning defaultLogger example_header =
    ([], Inl (SizeMismatch (40 + load4 example_header 22 * (4 + 4 * load4 example_header 2))
       (length example_header)))"
    by (rule truncated_binary_rejected) (simp_all add: f)
  then show ?thesis by (simp add: f)
qed

section \<open>The record loop of the binary loader\<close>

lemma read_point_eq:
  assumes "offset + 4 * nat (numDims - j) \<le> length buffer"
  shows "read_point rt buffer numDims i j offset point =
    Inr (point @ map (\<lambda>k. Num (ofFloat32 rt (word_of_int (load4 buffer (offset + 4 * k)))))
                   [0..<nat (numDims - j)],
         offset + 4 * nat (numDims - j))"
  using assms
proof (induction "nat (numDims - j)" arbitrary: j offset point)
  case 0
  then have "\<not> j < numDims" by simp
  with 0 show ?case by (subst read_point.simps) simp
next
  case (Suc n)
  then have lt: "j < numDims" and n: "n = nat (numDims - (j + 1))" by linarith+
  from Suc.prems Suc.hyps(2) have b: "offset + 4 \<le> length buffer"
    and b': "offset + 4 + 4 * nat (numDims - (j + 1)) \<le> length buffer"
    by linarith+
  have s: "nat (numDims - j) = Suc n" using Suc.hyps(2) by simp
  have rest: "map (\<lambda>k. Num (ofFloat32 rt (word_of_int (load4 buffer (offset + 4 * k))))) [0..<Suc n]
      = Num (ofFloat32 rt (word_of_int (load4 buffer offset)))
        # map (\<lambda>k. Num (ofFloat32 rt (word_of_int (load4 buffer (offset + 4 + 4 * k))))) [0..<n]"
    by (simp add: map_upt_Suc algebra_simps del: upt_Suc)
  show ?case
    apply (subst read_point.simps)
    using lt b
    apply (simp add: readFloatLE_def Suc.hyps(1) [OF n b'] s rest flip: n del: upt_Suc)
    done
qed

lemma read_point_0:
  assumes "offset + 4 * nat numDims \<le> length buffer"
  shows "read_point rt buffer numDims i 0 offset [] =
           Inr (decoded_point rt buffer numDims offset, offset + 4 * nat numDims)"
  using read_point_eq [of offset numDims 0 buffer rt i "[]"] assms
  by (simp add: decoded_point_def)

lemma read_vectors_eq:
  assumes "offset + nat (numVecs - i) * (4 + 4 * nat numDims) \<le> length buffer"
  shows "read_vectors rt eng buffer numDims numVecs i offset calls =
    replay eng calls (decoded_records rt buffer numDims offset (nat (numVecs - i)))"
  using assms
proof (induction "nat (numVecs - i)" arbitrary: i offset calls)
  case 0
  then have "\<not> i < numVecs" by simp
  with 0 show ?case by (subst read_vectors.simps) (simp add: decoded_records_def)
next
  case (Suc n)
  then have lt: "i < numVecs" and n: "n = nat (numVecs - (i + 1))" by linarith+
  have s: "nat (numVecs - i) = Suc n" using Suc.hyps(2) by simp
  from Suc.prems s have b: "offset + (4 + 4 * nat numDims) + n * (4 + 4 * nat numDims) \<le> length buffer"
    by (simp add: algebra_simps)
  then have b4: "offset + 4 \<le> length buffer" and bp: "offset + 4 + 4 * nat numDims \<le> length buffer"
    by linarith+
  have b': "offset + 4 + 4 * nat numDims + nat (numVecs - (i + 1)) * (4 + 4 * nat numDims) \<le> length buffer"
    using b n by (simp add: algebra_simps)
  have rest: "decoded_records rt buffer numDims offset (Suc n) =
      decoded_record rt buffer numDims offset
        # decoded_records rt buffer numDims (offset + 4 + 4 * nat numDims) n"
    by (simp add: decoded_records_def map_upt_Suc algebra_simps del: upt_Suc)
  show ?case
    apply (subst read_vectors.simps)
    using lt b4
    apply (simp add: readUInt32LE_def read_point_0 [OF bp] s rest decoded_record_def
        Suc.hyps(1) [OF n b'] flip: n split: sum.splits del: upt_Suc)
    done
qed

lemma replay_accepting:
  assumes "\<forall>calls c. eng calls c = None"
  shows "replay eng calls cs = (calls @ cs, Inr ())"
  using assms by (induction cs arbitrary: calls) (simp_all add: invoke_def)

lemma replay_Inr: "replay eng calls cs = (calls', Inr u) \<Longrightarrow> calls' = calls @ cs"
proof (induction cs arbitrary: calls)
  case Nil
  then show ?case by simp
next
  case (Cons c cs)
  from Cons.prems have "replay eng (calls @ [c]) cs = (calls', Inr u)"
    by (simp add: invoke_def split: option.splits)
  from Cons.IH [OF this] show ?case by simp
qed

lemma replay_Inl: "replay eng calls cs = (calls', Inl e) \<Longrightarrow> \<exists>msg. e = Thrown msg"
  by (induction cs arbitrary: calls) (auto simp: invoke_def split: option.splits)

lemma read_header_InrD:
  assumes "read_header buffer = Inr h"
  shows "40 \<le> length buffer"
    and "uint (buffer ! 0) = 1"
    and "0 < load4 buffer 2" and "load4 buffer 2 \<le> 100000" and "load4 buffer 22 \<le> 100000000"
    and "40 + load4 buffer 22 * (4 + load4 buffer 2 * 4) \<le> int (length buffer)"
    and "h = \<lparr> h_spaceName = spaceName_of_code (uint (buffer ! 1)),
                h_numDimensions = load4 buffer 2, h_maxElements = load4 buffer 6,
                h_m = load4 buffer 10, h_efConstruction = load4 buffer 14,
                h_randomSeed = load4 buffer 18, h_numVectors = load4 buffer 22,
                h_offset = 40 \<rparr>"
proof -
  show l: "40 \<le> length buffer"
  proof (rule ccontr)
    assume "\<not> 40 \<le> length buffer"
    then have "read_header buffer = Inl (FileTooSmall (length buffer))"
      by (simp add: read_header_def)
    with assms show False by simp
  qed
  note e = assms [unfolded read_header_eq [OF l]]
  from e show "uint (buffer ! 0) = 1" by (simp split: if_splits)
  from e show "0 < load4 buffer 2" by (simp split: if_splits)
  from e show "load4 buffer 2 \<le> 100000" by (simp split: if_splits)
  from e show "load4 buffer 22 \<le> 100000000" by (simp split: if_splits)
  from e show "40 + load4 buffer 22 * (4 + load4 buffer 2 * 4) \<le> int (length buffer)"
    by (simp split: if_splits)
  from e show "h = \<lparr> h_spaceName = spaceName_of_code (uint (buffer ! 1)),
                h_numDimensions = load4 buffer 2, h_maxElements = load4 buffer 6,
                h_m = load4 buffer 10, h_efConstruction = load4 buffer 14,
                h_randomSeed = load4 buffer 18, h_numVectors = load4 buffer 22,
                h_offset = 40 \<rparr>"
    by (simp split: if_splits)
qed

lemma loadIndexBinary_eq:
  assumes "read_header buffer = Inr h"
  shows "loadIndexBinary rt eng throws logger buffer =
    finish throws logger (header_metadata h)
      (replay eng [] (header_calls h
         @ decoded_records rt buffer (h_numDimensions h) 40 (nat (h_numVectors h))))"
proof -
  note d = read_header_InrD [OF assms]
  have nv: "0 \<le> load4 buffer 22" and nd: "0 \<le> load4 buffer 2"
    by (rule load4_nonneg)+
  obtain a b where a: "load4 buffer 22 = int a" and b: "load4 buffer 2 = int b"
    using nv nd by (metis zero_le_imp_eq_int)
  from d(6) have "int (40 + a * (4 + 4 * b)) \<le> int (length buffer)"
    by (simp add: a b algebra_simps)
  then have "40 + a * (4 + 4 * b) \<le> length buffer"
    by (simp only: of_nat_le_iff)
  then have "40 + nat (load4 buffer 22 - 0) * (4 + 4 * nat (load4 buffer 2)) \<le> length buffer"
    by (simp add: a b)
  note rv = read_vectors_eq [OF this, of rt eng]
  have hf: "h_numDimensions h = load4 buffer 2" "h_numVectors h = load4 buffer 22" "h_offset h = 40"
    by (simp_all add: d(7))
  show ?thesis
    unfolding loadIndexBinary_def assms recreate_binary_def
    by (simp add: hf rv finish_def header_calls_def header_metadata_def rethrow_def
        split: sum.splits prod.splits)
qed

lemma spaceName_of_code_unknown:
  assumes "c \<notin> {0, 1, 2}"
  shows "spaceName_of_code c = ''l2''"
proof -
  have "c < 0 \<or> 3 \<le> c" using assms by auto
  then show ?thesis by (auto simp: spaceName_of_code_def Let_def)
qed

lemma read_header_ok:
  assumes "40 \<le> length buffer" and "uint (buffer ! 0) = 1"
    and "0 < load4 buffer 2" and "load4 buffer 2 \<le> 100000"
    and "load4 buffer 22 \<le> 100000000"
    and "40 + load4 buffer 22 * (4 + 4 * load4 buffer 2) \<le> int (length buffer)"
  shows "read_header buffer =
    Inr \<lparr> h_spaceName = spaceName_of_code (uint (buffer ! 1)),
          h_numDimensions = load4 buffer 2, h_maxElements = load4 buffer 6,
          h_m = load4 buffer 10, h_efConstruction = load4 buffer 14,
          h_randomSeed = load4 buffer 18, h_numVectors = load4 buffer 22,
          h_offset = 40 \<rparr>"
  using assms by (simp add: read_header_eq mult.commute)

lemma load4_update_below:
  assumes "i < offset"
  shows "load4 (buffer[i := x]) offset = load4 buffer offset"
  using assms by (simp add: load4_def)

lemma decoded_records_update_below:
  assumes "i < offset"
  shows "decoded_records rt (buffer[i := x]) numDims offset n
           = decoded_records rt buffer numDims offset n"
  using assms
  by (simp add: decoded_records_def decoded_record_def decoded_point_def load4_update_below)

lemma spaceName_of_code_0: "spaceName_of_code 0 = ''l2''"
  by (simp add: spaceName_of_code_def)

text \<open>
  Claim C6.  Take a buffer that passes the length, version, \<open>numDimensions\<close>,
  \<open>numVectors\<close> and size checks and whose space code (the second byte) is none of 0, 1, 2.
  Whatever the engine and the logger are, the loader does not reject it: it creates the
  index for \<^verbatim>\<open>'l2'\<close>, initialises it with the header's parameters and inserts the
  records of the buffer, and when these calls and the final notification return it
  succeeds with metadata naming \<^verbatim>\<open>'l2'\<close>.  The outcome is in every case the one of the
  same buffer with the space code 0 (L2) in its second byte.
\<close>

theorem unknown_space_code_reads_as_l2:
  assumes "40 \<le> length buffer" and "uint (buffer ! 0) = 1"
    and "0 < load4 buffer 2" and "load4 buffer 2 \<le> 100000"
    and "load4 buffer 22 \<le> 100000000"
    and "40 + load4 buffer 22 * (4 + 4 * load4 buffer 2) \<le> int (length buffer)"
    and "uint (buffer ! 1) \<notin> {0, 1, 2}"
  shows "loadIndexBinary rt eng throws logger buffer =
           finish throws logger
             \<lparr> spaceName = Str ''l2'', numDimensions = num (load4 buffer 2),
               maxElements = num (load4 buffer 6), m = num (load4 buffer 10),
               efConstruction = num (load4 buffer 14), randomSeed = num (load4 buffer 18) \<rparr>
             (replay eng []
                ([New (Str ''l2'') (num (load4 buffer 2)),
                  InitIndex (num (load4 buffer 6)) (num (load4 buffer 10))
                    (num (load4 buffer 14)) (num (load4 buffer 18))]
                 @ decoded_records rt buffer (load4 buffer 2) 40 (nat (load4 buffer 22))))
       \<and> loadIndexBinary rt eng throws logger buffer
           = loadIndexBinary rt eng throws logger (buffer[1 := 0])
       \<and> (replay eng []
             ([New (Str ''l2'') (num (load4 buffer 2)),
               InitIndex (num (load4 buffer 6)) (num (load4 buffer 10))
                 (num (load4 buffer 14)) (num (load4 buffer 18))]
              @ decoded_records rt buffer (load4 buffer 2) 40 (nat (load4 buffer 22)))
             = (calls, Inr ())
           \<and> call_logger throws logger ''log'' = Inr ()
           \<longrightarrow> loadIndexBinary rt eng throws logger buffer =
                 (calls,
                  Inr \<lparr> spaceName = Str ''l2'', numDimensions = num (load4 buffer 2),
                        maxElements = num (load4 buffer 6), m = num (load4 buffer 10),
                        efConstruction = num (load4 buffer 14),
                        randomSeed = num (load4 buffer 18) \<rparr>))"
proof -
  let ?h = "\<lparr> h_spaceName = ''l2'',
          h_numDimensions = load4 buffer 2, h_maxElements = load4 buffer 6,
          h_m = load4 buffer 10, h_efConstruction = load4 buffer 14,
          h_randomSeed = load4 buffer 18, h_numVectors = load4 buffer 22,
          h_offset = 40 \<rparr>"
  let ?md = "\<lparr> spaceName = Str ''l2'', numDimensions = num (load4 buffer 2),
               maxElements = num (load4 buffer 6), m = num (load4 buffer 10),
               efConstruction = num (load4 buffer 14), randomSeed = num (load4 buffer 18) \<rparr>"
  let ?cs = "[New (Str ''l2'') (num (load4 buffer 2)),
                  InitIndex (num (load4 buffer 6)) (num (load4 buffer 10))
                    (num (load4 buffer 14)) (num (load4 buffer 18))]
                 @ decoded_records rt buffer (load4 buffer 2) 40 (nat (load4 buffer 22))"
  have h: "read_header buffer = Inr ?h"
    using read_header_ok [OF assms(1-6)] spaceName_of_code_unknown [OF assms(7)] by simp
  have eq: "loadIndexBinary rt eng throws logger buffer = finish throws logger ?md (replay eng [] ?cs)"
    unfolding loadIndexBinary_eq [OF h]
    by (simp add: header_metadata_def header_calls_def)
  let ?b = "buffer[1 := 0]"
  have h0: "read_header ?b = Inr ?h"
  proof -
    have "read_header ?b =
      Inr \<lparr> h_spaceName = spaceName_of_code (uint (?b ! 1)),
            h_numDimensions = load4 ?b 2, h_maxElements = load4 ?b 6,
            h_m = load4 ?b 10, h_efConstruction = load4 ?b 14,
            h_randomSeed = load4 ?b 18, h_numVectors = load4 ?b 22, h_offset = 40 \<rparr>"
      by (rule read_header_ok) (use assms(1-6) in \<open>simp_all add: load4_update_below\<close>)
    moreover have "?b ! 1 = 0" using assms(1) by simp
    ultimately show ?thesis
      by (simp add: load4_update_below spaceName_of_code_0)
  qed
  have eq0: "loadIndexBinary rt eng throws logger ?b = finish throws logger ?md (replay eng [] ?cs)"
    unfolding loadIndexBinary_eq [OF h0]
    by (simp add: header_metadata_def header_calls_def decoded_records_update_below)
  have ok: "loadIndexBinary rt eng throws logger buffer = (calls, Inr ?md)"
    if "replay eng [] ?cs = (calls, Inr ())" and "call_logger throws logger ''log'' = Inr ()"
    unfolding eq using that by (simp add: finish_def)
  from eq eq0 ok show ?thesis by simp
qed

theorem unknown_space_code_reads_as_l2_witness:
  "uint (example_unknown_space ! 1) = 7
   \<and> loadIndexBinary example_runtime accepting returning defaultLogger example_unknown_space
       = (example_calls, Inr example_loaded)
   \<and> loadIndexBinary example_runtime no_duplicates returning defaultLogger example_unknown_space
       = (example_calls, Inr example_loaded)"
proof -
  have l: "length example_unknown_space = 88"
    by (simp add: example_unknown_space_def example_header_def example_records_def)
  have v: "uint (example_unknown_space ! 0) = 1"
    and c: "uint (example_unknown_space ! 1) = 7"
    by (simp_all add: example_unknown_space_def example_header_def)
  have f: "load4 example_unknown_space 2 = 3" "load4 example_unknown_space 6 = 10"
    "load4 example_unknown_space 10 = 16" "load4 example_unknown_space 14 = 200"
    "load4 example_unknown_space 18 = 100" "load4 example_unknown_space 22 = 3"
    by (simp_all add: example_unknown_space_def example_header_def load4_def)
  have r: "[New (Str ''l2'') (num 3), InitIndex (num 10) (num 16) (num 200) (num 100)]
        @ decoded_records example_runtime example_unknown_space 3 40 (nat 3) = example_calls"
    by code_simp
  have h: "40 \<le> length example_unknown_space" "uint (example_unknown_space ! 0) = 1"
    "0 < load4 example_unknown_space 2" "load4 example_unknown_space 2 \<le> 100000"
    "load4 example_unknown_space 22 \<le> 100000000"
    "40 + load4 example_unknown_space 22 * (4 + 4 * load4 example_unknown_space 2)
       \<le> int (length example_unknown_space)"
    "uint (example_unknown_space ! 1) \<notin> {0, 1, 2}"
    unfolding l v c f by simp_all
  have md: "\<lparr> spaceName = Str ''l2'', numDimensions = num 3, maxElements = num 10, m = num 16,
       efConstruction = num 200, randomSeed = num 100 \<rparr> = example_loaded"
    by (simp add: example_loaded_def)
  have e1: "finish returning defaultLogger example_loaded (replay accepting [] example_calls)
      = (example_calls, Inr example_loaded)"
    by code_simp
  have e2: "finish returning defaultLogger example_loaded (replay no_duplicates [] example_calls)
      = (example_calls, Inr example_loaded)"
    by code_simp
  note th = unknown_space_code_reads_as_l2 [OF h, where rt = example_runtime, unfolded f r md]
  from th [of accepting returning defaultLogger]
  have a: "loadIndexBinary example_runtime accepting returning defaultLogger example_unknown_space
       = (example_calls, Inr example_loaded)"
    unfolding e1 by blast
  from th [of no_duplicates returning defaultLogger]
  have b: "loadIndexBinary example_runtime no_duplicates returning defaultLogger example_unknown_space
       = (example_calls, Inr example_loaded)"
    unfolding e2 by blast
  from c a b show ?thesis by simp
qed

lemma load4_take: "offset + 4 \<le> n \<Longrightarrow> load4 (take n buffer) offset = load4 buffer offset"
  by (simp add: load4_def)

lemma decoded_records_take:
  assumes "offset + n * (4 + 4 * nat numDims) \<le> N"
  shows "decoded_records rt (take N buffer) numDims offset n = decoded_records rt buffer numDims offset n"
proof -
  have "decoded_record rt (take N buffer) numDims (offset + k * (4 + 4 * nat numDims))
      = decoded_record rt buffer numDims (offset + k * (4 + 4 * nat numDims))" if "k < n" for k
  proof -
    from that have "Suc k \<le> n" by simp
    then have "Suc k * (4 + 4 * nat numDims) \<le> n * (4 + 4 * nat numDims)"
      by (rule mult_le_mono1)
    with assms have b: "offset + k * (4 + 4 * nat numDims) + 4 + 4 * nat numDims \<le> N"
      by simp
    have "load4 (take N buffer) (offset + k * (4 + 4 * nat numDims) + 4 + 4 * j)
        = load4 buffer (offset + k * (4 + 4 * nat numDims) + 4 + 4 * j)" if "j < nat numDims" for j
      using that b by (intro load4_take) linarith
    moreover have "load4 (take N buffer) (offset + k * (4 + 4 * nat numDims))
        = load4 buffer (offset + k * (4 + 4 * nat numDims))"
      using b by (intro load4_take) linarith
    ultimately show ?thesis
      by (simp add: decoded_record_def decoded_point_def)
  qed
  then show ?thesis by (simp add: decoded_records_def)
qed

text \<open>
  Claim C9.  When a buffer is longer than the size its header announces,
  \<open>40 + numVectors * (4 + 4 * numDimensions)\<close>, and its first bytes up to that size are a
  file the loader accepts, the loader accepts the whole buffer with the same result: the
  same calls on the engine and the same metadata.  The bytes after the last record are
  never looked at.
\<close>

theorem trailing_bytes_ignored:
  assumes "40 + load4 buffer 22 * (4 + 4 * load4 buffer 2) < int (length buffer)"
    and "loadIndexBinary rt eng throws logger (take (nat (40 + load4 buffer 22 * (4 + 4 * load4 buffer 2))) buffer)
           = (calls, Inr md)"
  shows "loadIndexBinary rt eng throws logger buffer = (calls, Inr md)"
proof -
  define E where "E = nat (40 + load4 buffer 22 * (4 + 4 * load4 buffer 2))"
  have nv: "0 \<le> load4 buffer 22" and nd: "0 \<le> load4 buffer 2"
    by (rule load4_nonneg)+
  then have "0 \<le> load4 buffer 22 * (4 + 4 * load4 buffer 2)" by simp
  then have E40: "40 \<le> E" and Eint: "int E = 40 + load4 buffer 22 * (4 + 4 * load4 buffer 2)"
    by (simp_all add: E_def)
  from assms(1) Eint have El: "E < length buffer" by linarith
  let ?p = "take E buffer"
  have lp: "length ?p = E" using El by simp
  have f: "load4 ?p 2 = load4 buffer 2" "load4 ?p 6 = load4 buffer 6" "load4 ?p 10 = load4 buffer 10"
    "load4 ?p 14 = load4 buffer 14" "load4 ?p 18 = load4 buffer 18" "load4 ?p 22 = load4 buffer 22"
    using E40 by (simp_all add: load4_take)
  have b: "?p ! 0 = buffer ! 0" "?p ! 1 = buffer ! 1"
    using E40 by simp_all
  from assms(2) obtain h where hp: "read_header ?p = Inr h"
    by (auto simp: loadIndexBinary_def E_def split: sum.splits)
  note d = read_header_InrD [OF hp, unfolded f b lp]
  have hb: "read_header buffer = Inr h"
    using d El Eint by (simp add: read_header_eq mult.commute)
  have hf: "h_numDimensions h = load4 buffer 2" "h_numVectors h = load4 buffer 22"
    by (simp_all add: d(7))
  obtain x y where x: "load4 buffer 22 = int x" and y: "load4 buffer 2 = int y"
    using nv nd by (metis zero_le_imp_eq_int)
  have "int (40 + x * (4 + 4 * y)) = int E"
    by (simp add: Eint x y)
  then have "40 + x * (4 + 4 * y) = E" by (simp only: of_nat_eq_iff)
  then have "40 + nat (load4 buffer 22) * (4 + 4 * nat (load4 buffer 2)) \<le> E"
    by (simp add: x y)
  note t = decoded_records_take [OF this, of rt buffer]
  from loadIndexBinary_eq [OF hp, of rt eng throws logger] loadIndexBinary_eq [OF hb, of rt eng throws logger]
  have "loadIndexBinary rt eng throws logger buffer = loadIndexBinary rt eng throws logger ?p"
    by (simp add: hf t)
  with assms(2) show ?thesis by (simp add: E_def)
qed

theorem trailing_bytes_ignored_witness:
  "length example_trailing = 91
   \<and> take 88 example_trailing = example_header @ example_records
   \<and> loadIndexBinary example_runtime accepting returning defaultLogger example_trailing
       = (example_calls, Inr example_loaded)"
proof -
  have l: "length example_trailing = 91"
    by (simp add: example_trailing_def example_header_def example_records_def)
  have f: "load4 example_trailing 2 = 3" "load4 example_trailing 22 = 3"
    by (simp_all add: example_trailing_def example_header_def load4_def)
  have t: "take 88 example_trailing = example_header @ example_records"
    by (simp add: example_trailing_def example_header_def example_records_def)
  have p: "loadIndexBinary example_runtime accepting returning defaultLogger (example_header @ example_records)
      = (example_calls, Inr example_loaded)"
    by code_simp
  have h1: "40 + load4 example_trailing 22 * (4 + 4 * load4 example_trailing 2)
      < int (length example_trailing)"
    unfolding l f by simp
  have n: "nat (40 + load4 example_trailing 22 * (4 + 4 * load4 example_trailing 2)) = 88"
    unfolding f by simp
  have h2: "loadIndexBinary example_runtime accepting returning defaultLogger
      (take (nat (40 + load4 example_trailing 22 * (4 + 4 * load4 example_trailing 2)))
         example_trailing) = (example_calls, Inr example_loaded)"
    unfolding n t by (rule p)
  from trailing_bytes_ignored [OF h1 h2] l t show ?thesis by simp
qed

section \<open>What the binary encoder writes, and how it is read back\<close>

lemma length_le4 [simp]: "length (le4 v) = 4"
  by (simp add: le4_def)












lemma is_finite_number_iff: "is_finite_number v \<longleftrightarrow> (\<exists>r. v = Num (Fin r))"
  by (cases v rule: truthy.cases) (simp_all add: is_finite_number_def)

lemma float_bytes_Fin [simp]: "float_bytes rt (Num (Fin r)) = le4 (uint (toFloat32 rt r))"
  by (simp add: float_bytes_def)






















section \<open>The text loader and the round trips\<close>


lemma get_prop_None_iff: "get_prop v name = None \<longleftrightarrow> v = Undefined \<or> v = Null"
  by (cases v) simp_all

lemma add_vectors_invalid:
  assumes "\<not> valid_entry numDims entry"
  shows "add_vectors eng numDims (entry # rest) calls = (calls, Inl (entry_error numDims entry))"
  using assms
  by (auto simp: valid_entry_def entry_error_def get_prop_None_iff
      split: option.splits jsval.splits)

lemma replay_append:
  "replay eng calls (xs @ ys) =
     (case replay eng calls xs of
        (calls', Inl e) \<Rightarrow> (calls', Inl e)
      | (calls', Inr u) \<Rightarrow> replay eng calls' ys)"
  by (induction xs arbitrary: calls) (simp_all split: sum.splits)

lemma add_vectors_append:
  assumes "list_all (valid_entry numDims) pre"
  shows "add_vectors eng numDims (pre @ rest) calls =
     (case replay eng calls (map entry_call pre) of
        (calls', Inl e) \<Rightarrow> (calls', Inl e)
      | (calls', Inr u) \<Rightarrow> add_vectors eng numDims rest calls')"
  using assms
proof (induction pre arbitrary: calls)
  case Nil
  then show ?case by simp
next
  case (Cons entry pre)
  from Cons.prems have v: "valid_entry numDims entry"
    and rest: "list_all (valid_entry numDims) pre" by simp_all
  from v obtain label components where
    l: "get_prop entry ''label'' = Some label" and p: "get_prop entry ''point'' = Some (Arr components)"
    and n: "is_number label" and len: "\<not> length_differs (length components) numDims"
    by (auto simp: valid_entry_def split: option.splits jsval.splits)
  show ?case
    by (simp add: l p n len entry_call_def property_def Cons.IH [OF rest] split: sum.splits)
qed

lemma get_prop_Some:
  assumes "get_prop v a = Some x"
  shows "get_prop v b = Some (property v b)"
  using assms by (cases v) (simp_all add: property_def)

lemma loadIndexJSON_eq:
  assumes "passes_checks data vectors"
  shows "loadIndexJSON eng throws logger (Some data) =
    (case replay eng [] (text_calls data) of
       (calls, Inl e) \<Rightarrow> (calls, Inl (RecreateFailed e))
     | (calls, Inr u) \<Rightarrow>
         finish throws logger (text_metadata data)
           (add_vectors eng (property data ''numDimensions'') vectors calls))"
proof -
  from assms have v: "get_prop data ''vectors'' = Some (Arr vectors)"
    by (simp add: passes_checks_def)
  note g = get_prop_Some [OF v]
  have pv: "property data ''vectors'' = Arr vectors"
    using v by (simp add: property_def)
  from assms obtain nd where nd: "property data ''numDimensions'' = Num nd" "\<not> le_zero nd"
    by (auto simp: passes_checks_def g split: option.splits jsval.splits)
  from assms have sn: "property data ''spaceName'' \<in> set [Str ''l2'', Str ''ip'', Str ''cosine'']"
    by (auto simp: passes_checks_def g split: option.splits)
  then have tr: "truthy (property data ''spaceName'')" by auto
  show ?thesis
    unfolding loadIndexJSON_def recreate_text_def
    using sn tr
    by (simp add: g pv nd text_calls_def text_metadata_def finish_def rethrow_def
        split: sum.splits prod.splits)
qed

lemma loadIndexJSON_success:
  assumes "loadIndexJSON eng throws logger (Some data) = (calls, Inr md)"
  shows "\<exists>vectors. passes_checks data vectors"
  using assms
  by (auto simp: loadIndexJSON_def passes_checks_def rethrow_def
      split: option.splits jsval.splits if_splits prod.splits sum.splits)


lemma json_text_value_finite:
  "list_all is_finite_number point \<Longrightarrow> map json_text_value point = point"
  by (induction point) (auto simp: is_finite_number_iff)

lemma json_text_value_num [simp]: "json_text_value (num n) = num n"
  by (simp add: num_def)

lemma num_not_Undefined [simp]: "num n \<noteq> Undefined"
  by (simp add: num_def)

lemma json_text_value_entry:
  "list_all is_finite_number (snd v) \<Longrightarrow> json_text_value (vector_entry v) = vector_entry v"
  by (simp add: vector_entry_def json_text_value_finite)

lemma json_text_value_entries:
  "list_all (valid_record numDims) vectors \<Longrightarrow>
     map json_text_value (map vector_entry vectors) = map vector_entry vectors"
  by (induction vectors) (simp_all add: json_text_value_entry valid_record_def)







lemma inserted_append: "inserted (xs @ ys) = inserted xs @ inserted ys"
  by (induction xs rule: inserted.induct) simp_all







section \<open>The number of records a load inserts\<close>

lemma inserted_entry_calls: "length (inserted (map entry_call vectors)) = length vectors"
  by (induction vectors) (simp_all add: entry_call_def)

lemma inserted_decoded_records:
  "length (inserted (decoded_records rt buffer numDims offset n)) = n"
proof -
  have "length (inserted (map (\<lambda>k. decoded_record rt buffer numDims (f k)) ks)) = length ks"
    for f :: "nat \<Rightarrow> nat" and ks
    by (induction ks) (simp_all add: decoded_record_def)
  then show ?thesis by (simp add: decoded_records_def)
qed

lemma finish_Inr:
  assumes "finish throws logger md r = (calls, Inr md')"
  shows "r = (calls, Inr ()) \<and> md' = md"
  using assms by (auto simp: finish_def split: prod.splits sum.splits)

lemma add_vectors_Inr:
  assumes "add_vectors eng numDims entries calls = (calls', Inr u)"
  shows "calls' = calls @ map entry_call entries"
  using assms
proof (induction entries arbitrary: calls)
  case Nil
  then show ?case by simp
next
  case (Cons entry entries)
  show ?case
  proof (cases "valid_entry numDims entry")
    case False
    from add_vectors_invalid [OF False, of eng entries calls] Cons.prems show ?thesis by simp
  next
    case True
    then obtain label components where
      l: "get_prop entry ''label'' = Some label" and p: "get_prop entry ''point'' = Some (Arr components)"
      and n: "is_number label" and len: "\<not> length_differs (length components) numDims"
      by (auto simp: valid_entry_def split: option.splits jsval.splits)
    from Cons.prems have
      "add_vectors eng numDims entries (calls @ [entry_call entry]) = (calls', Inr u)"
      by (simp add: l p n len entry_call_def property_def invoke_def split: option.splits)
    from Cons.IH [OF this] show ?thesis by simp
  qed
qed

lemma loadIndexJSON_Inr:
  assumes "loadIndexJSON eng throws logger (Some data) = (calls, Inr md)"
  obtains vectors where "passes_checks data vectors"
    and "calls = text_calls data @ map entry_call vectors"
    and "md = text_metadata data"
proof -
  from loadIndexJSON_success [OF assms] obtain vectors where pc: "passes_checks data vectors" ..
  obtain cs r where r: "replay eng [] (text_calls data) = (cs, r)"
    by (cases "replay eng [] (text_calls data)")
  show thesis
  proof (cases r)
    case (Inl e)
    with assms r show ?thesis
      unfolding loadIndexJSON_eq [OF pc] by simp
  next
    case (Inr u)
    with r have cs: "cs = text_calls data" using replay_Inr [of eng "[]" "text_calls data" cs u] by simp
    from assms r Inr have
      "finish throws logger (text_metadata data)
         (add_vectors eng (property data ''numDimensions'') vectors cs) = (calls, Inr md)"
      unfolding loadIndexJSON_eq [OF pc] by simp
    from finish_Inr [OF this] have
      a: "add_vectors eng (property data ''numDimensions'') vectors cs = (calls, Inr ())"
      and m: "md = text_metadata data" by simp_all
    from add_vectors_Inr [OF a] cs have c: "calls = text_calls data @ map entry_call vectors" by simp
    from pc c m show ?thesis by (rule that)
  qed
qed

text \<open>
  Claim C3, as amended.  A binary load that succeeds has inserted as many records as the
  header declares (the 32-bit field at offset 22).  A text load that succeeds has inserted
  as many records as the \<^verbatim>\<open>vectors\<close> array of the document holds; the declared
  \<^verbatim>\<open>numVectors\<close> is not read: whatever value the document gives it, the outcome of the
  load is the same.
\<close>

theorem decoded_record_count:
  "(loadIndexBinary rt eng throws logger buffer = (calls, Inr md)
      \<longrightarrow> int (length (inserted calls)) = load4 buffer 22)
   \<and> (loadIndexJSON eng throws logger (Some data) = (calls', Inr md')
      \<longrightarrow> (\<exists>vectors. get_prop data ''vectors'' = Some (Arr vectors)
             \<and> length (inserted calls') = length vectors))
   \<and> loadIndexJSON eng throws logger (Some (Obj ((''numVectors'', v) # ps)))
       = loadIndexJSON eng throws logger (Some (Obj ps))"
proof -
  have b: "int (length (inserted calls)) = load4 buffer 22"
    if ok: "loadIndexBinary rt eng throws logger buffer = (calls, Inr md)"
  proof -
    from ok obtain h where h: "read_header buffer = Inr h"
      by (cases "read_header buffer") (simp_all add: loadIndexBinary_def)
    note d = read_header_InrD [OF h]
    have nv: "0 \<le> load4 buffer 22" by (rule load4_nonneg)
    from ok have "finish throws logger (header_metadata h)
        (replay eng [] (header_calls h
           @ decoded_records rt buffer (h_numDimensions h) 40 (nat (h_numVectors h))))
        = (calls, Inr md)"
      unfolding loadIndexBinary_eq [OF h] .
    from finish_Inr [OF this] have
      "replay eng [] (header_calls h
           @ decoded_records rt buffer (h_numDimensions h) 40 (nat (h_numVectors h)))
        = (calls, Inr ())" by simp
    from replay_Inr [OF this] have
      "calls = header_calls h @ decoded_records rt buffer (h_numDimensions h) 40 (nat (h_numVectors h))"
      by simp
    then have "length (inserted calls) = nat (h_numVectors h)"
      by (simp add: inserted_append inserted_decoded_records header_calls_def)
    with d(7) nv show ?thesis by simp
  qed
  have t: "\<exists>vectors. get_prop data ''vectors'' = Some (Arr vectors)
             \<and> length (inserted calls') = length vectors"
    if ok: "loadIndexJSON eng throws logger (Some data) = (calls', Inr md')"
  proof -
    from loadIndexJSON_Inr [OF ok] obtain vectors where pc: "passes_checks data vectors"
      and c: "calls' = text_calls data @ map entry_call vectors" by blast
    from c have "length (inserted calls') = length vectors"
      by (simp add: inserted_append inserted_entry_calls text_calls_def)
    with pc show ?thesis by (auto simp: passes_checks_def)
  qed
  have g: "get_prop (Obj ((''numVectors'', v) # ps)) ''vectors'' = get_prop (Obj ps) ''vectors''"
    "get_prop (Obj ((''numVectors'', v) # ps)) ''numDimensions'' = get_prop (Obj ps) ''numDimensions''"
    "get_prop (Obj ((''numVectors'', v) # ps)) ''spaceName'' = get_prop (Obj ps) ''spaceName''"
    "get_prop (Obj ((''numVectors'', v) # ps)) ''maxElements'' = get_prop (Obj ps) ''maxElements''"
    "get_prop (Obj ((''numVectors'', v) # ps)) ''m'' = get_prop (Obj ps) ''m''"
    "get_prop (Obj ((''numVectors'', v) # ps)) ''efConstruction'' = get_prop (Obj ps) ''efConstruction''"
    "get_prop (Obj ((''numVectors'', v) # ps)) ''randomSeed'' = get_prop (Obj ps) ''randomSeed''"
    by simp_all
  have n: "loadIndexJSON eng throws logger (Some (Obj ((''numVectors'', v) # ps)))
       = loadIndexJSON eng throws logger (Some (Obj ps))"
    unfolding loadIndexJSON_def recreate_text_def option.case g ..
  from b t n show ?thesis by blast
qed

text \<open>The scenario's two files: three records declared, three inserted.\<close>

theorem decoded_record_count_witness:
  "loadIndexBinary example_runtime accepting returning defaultLogger (example_header @ example_records)
     = (example_calls, Inr example_loaded)
   \<and> int (length (inserted example_calls)) = 3
   \<and> load4 (example_header @ example_records) 22 = 3
   \<and> loadIndexJSON accepting returning defaultLogger
       (Some (saved_document ''l2'' 3 10 16 200 100 example_vectors))
     = (example_calls, Inr example_loaded)
   \<and> length (inserted example_calls) = length example_vectors"
proof -
  have b: "loadIndexBinary example_runtime accepting returning defaultLogger
      (example_header @ example_records) = (example_calls, Inr example_loaded)"
    by code_simp
  have t: "loadIndexJSON accepting returning defaultLogger
       (Some (saved_document ''l2'' 3 10 16 200 100 example_vectors))
     = (example_calls, Inr example_loaded)"
    by code_simp
  have v: "get_prop (saved_document ''l2'' 3 10 16 200 100 example_vectors) ''vectors''
      = Some (Arr (map vector_entry example_vectors))"
    by (simp add: saved_document_def)
  note d = decoded_record_count [of example_runtime accepting returning defaultLogger
      "example_header @ example_records" example_calls example_loaded
      "saved_document ''l2'' 3 10 16 200 100 example_vectors" example_calls example_loaded]
  from d b have l: "int (length (inserted example_calls)) = load4 (example_header @ example_records) 22"
    by blast
  from d t obtain vectors where
    "get_prop (saved_document ''l2'' 3 10 16 200 100 example_vectors) ''vectors'' = Some (Arr vectors)"
    and "length (inserted example_calls) = length vectors" by blast
  with v have l': "length (inserted example_calls) = length example_vectors" by simp
  then have "int (length (inserted example_calls)) = 3" by (simp add: example_vectors_def)
  with b t l l' show ?thesis by simp
qed

text \<open>
  Claim C3 as the spec states it fails on the text document that declares five records and
  holds three: it is accepted, and three records are inserted.
\<close>

theorem declared_count_counterexample:
  "get_prop miscounted_document ''numVectors'' = Some (num 5)
   \<and> get_prop miscounted_document ''vectors'' = Some (Arr (map vector_entry example_vectors))
   \<and> length (map vector_entry example_vectors) = 3
   \<and> loadIndexJSON accepting returning defaultLogger (Some miscounted_document)
       = (example_calls, Inr example_loaded)
   \<and> length (inserted example_calls) = 3"
proof -
  have a: "get_prop miscounted_document ''numVectors'' = Some (num 5)"
    "get_prop miscounted_document ''vectors'' = Some (Arr (map vector_entry example_vectors))"
    by (simp_all add: miscounted_document_def)
  have b: "length (map vector_entry example_vectors) = 3" by (simp add: example_vectors_def)
  have c: "loadIndexJSON accepting returning defaultLogger (Some miscounted_document)
       = (example_calls, Inr example_loaded)"
    by code_simp
  have d: "length (inserted example_calls) = 3" by (simp add: example_calls_def)
  from a b c d show ?thesis by blast
qed

section \<open>The metadata a text load returns\<close>

lemma js_or_truthy: "truthy v \<Longrightarrow> js_or v d = v"
  by (simp add: js_or_def)

lemma js_or_Undefined: "js_or Undefined d = d"
  by (simp add: js_or_def)

lemma property_Obj:
  "property (Obj ps) name = (case map_of ps name of Some v \<Rightarrow> v | None \<Rightarrow> Undefined)"
  by (simp add: property_def)

lemma passes_checks_Obj:
  assumes "passes_checks data vectors"
  shows "\<exists>ps. data = Obj ps"
  using assms by (cases data) (simp_all add: passes_checks_def)

text \<open>
  Claim C4, as amended.  When the text loader accepts a document, the document is an object,
  and for each of \<^verbatim>\<open>m\<close>, \<^verbatim>\<open>efConstruction\<close>, \<^verbatim>\<open>randomSeed\<close> and \<^verbatim>\<open>maxElements\<close>
  the metadata returned carries the document's own value when the key is present with a
  truthy value (for a number: neither 0 nor \<^verbatim>\<open>NaN\<close>), and the default (16, 200, 100 and
  100) when the key is absent.
\<close>

theorem text_metadata_values:
  assumes "loadIndexJSON eng throws logger (Some data) = (calls, Inr md)"
  shows "\<exists>ps. data = Obj ps
     \<and> (case map_of ps ''m'' of None \<Rightarrow> m md = num 16 | Some v \<Rightarrow> truthy v \<longrightarrow> m md = v)
     \<and> (case map_of ps ''efConstruction'' of
           None \<Rightarrow> efConstruction md = num 200
         | Some v \<Rightarrow> truthy v \<longrightarrow> efConstruction md = v)
     \<and> (case map_of ps ''randomSeed'' of
           None \<Rightarrow> randomSeed md = num 100
         | Some v \<Rightarrow> truthy v \<longrightarrow> randomSeed md = v)
     \<and> (case map_of ps ''maxElements'' of
           None \<Rightarrow> maxElements md = num 100
         | Some v \<Rightarrow> truthy v \<longrightarrow> maxElements md = v)"
proof -
  from loadIndexJSON_Inr [OF assms] obtain vectors where pc: "passes_checks data vectors"
    and md: "md = text_metadata data" by blast
  from passes_checks_Obj [OF pc] obtain ps where d: "data = Obj ps" ..
  have k: "(case map_of ps name of None \<Rightarrow> js_or (property data name) dflt = dflt
            | Some v \<Rightarrow> truthy v \<longrightarrow> js_or (property data name) dflt = v)" for name dflt
    unfolding d property_Obj
    by (cases "map_of ps name") (simp_all add: js_or_Undefined js_or_truthy)
  have f: "m md = js_or (property data ''m'') (num 16)"
    "efConstruction md = js_or (property data ''efConstruction'') (num 200)"
    "randomSeed md = js_or (property data ''randomSeed'') (num 100)"
    "maxElements md = js_or (property data ''maxElements'') (num 100)"
    unfolding md by (simp_all add: text_metadata_def)
  from d k [of "''m''" "num 16"] k [of "''efConstruction''" "num 200"]
    k [of "''randomSeed''" "num 100"] k [of "''maxElements''" "num 100"]
  show ?thesis unfolding f by blast
qed

text \<open>
  The document with \<^verbatim>\<open>efConstruction: 50\<close> and none of the three other keys: the load
  returns 50 and the three defaults.
\<close>

theorem text_metadata_values_witness:
  "loadIndexJSON accepting returning defaultLogger (Some sparse_document)
     = (New (Str ''l2'') (num 3) # InitIndex (num 100) (num 16) (num 50) (num 100)
          # drop 2 example_calls,
        Inr \<lparr> spaceName = Str ''l2'', numDimensions = num 3, maxElements = num 100,
              m = num 16, efConstruction = num 50, randomSeed = num 100 \<rparr>)
   \<and> (\<exists>ps. sparse_document = Obj ps \<and> map_of ps ''m'' = None
          \<and> map_of ps ''efConstruction'' = Some (num 50) \<and> map_of ps ''randomSeed'' = None
          \<and> map_of ps ''maxElements'' = None)"
proof -
  let ?md = "\<lparr> spaceName = Str ''l2'', numDimensions = num 3, maxElements = num 100,
              m = num 16, efConstruction = num 50, randomSeed = num 100 \<rparr>"
  have h: "loadIndexJSON accepting returning defaultLogger (Some sparse_document)
     = (New (Str ''l2'') (num 3) # InitIndex (num 100) (num 16) (num 50) (num 100)
          # drop 2 example_calls, Inr ?md)"
    by code_simp
  from text_metadata_values [OF h] obtain ps where d: "sparse_document = Obj ps"
    and "case map_of ps ''m'' of None \<Rightarrow> m ?md = num 16 | Some v \<Rightarrow> truthy v \<longrightarrow> m ?md = v"
    by blast
  from d have "map_of ps ''m'' = None \<and> map_of ps ''efConstruction'' = Some (num 50)
      \<and> map_of ps ''randomSeed'' = None \<and> map_of ps ''maxElements'' = None"
    by (auto simp: sparse_document_def)
  with h d show ?thesis by blast
qed

text \<open>
  Claim C4 as the spec states it fails on the document with \<^verbatim>\<open>"m": 0\<close>: the key is
  present and the metadata returned has \<^verbatim>\<open>m: 16\<close> (\<^verbatim>\<open>data.m || 16\<close>).
\<close>

theorem zero_m_counterexample:
  "get_prop zero_m_document ''m'' = Some (num 0)
   \<and> loadIndexJSON accepting returning defaultLogger (Some zero_m_document)
       = (example_calls, Inr example_loaded)
   \<and> m example_loaded = num 16 \<and> num 16 \<noteq> num 0"
proof -
  have a: "get_prop zero_m_document ''m'' = Some (num 0)"
    by (simp add: zero_m_document_def)
  have b: "loadIndexJSON accepting returning defaultLogger (Some zero_m_document)
       = (example_calls, Inr example_loaded)"
    by code_simp
  have c: "m example_loaded = num 16 \<and> num 16 \<noteq> num 0"
    by (simp add: example_loaded_def num_def)
  from a b c show ?thesis by blast
qed

section \<open>An invalid record in a text document\<close>

text \<open>
  Claim C5, as amended.  Take a text document that passes the three structural checks and
  whose \<^verbatim>\<open>vectors\<close> array holds an invalid record after the valid records \<open>pre\<close>.  The
  load fails, whatever the engine and the logger do, but not before the index exists: the
  loader creates the index, initialises it and inserts the records \<open>pre\<close> (up to the first
  call the engine refuses), and only then meets the invalid record and throws its error.  A
  record is validated just before its own insertion.
\<close>

theorem invalid_record_fails_after_insertions:
  assumes "passes_checks data (pre @ bad # post)"
    and "list_all (valid_entry (property data ''numDimensions'')) pre"
    and "\<not> valid_entry (property data ''numDimensions'') bad"
  shows "loadIndexJSON eng throws logger (Some data) =
           (case replay eng [] (text_calls data @ map entry_call pre) of
              (calls, Inl e) \<Rightarrow> (calls, Inl (RecreateFailed e))
            | (calls, Inr u) \<Rightarrow>
                (calls, Inl (RecreateFailed (entry_error (property data ''numDimensions'') bad))))
       \<and> (replay eng [] (text_calls data @ map entry_call pre) = (calls, Inr ()) \<longrightarrow>
            loadIndexJSON eng throws logger (Some data) =
              (text_calls data @ map entry_call pre,
               Inl (RecreateFailed (entry_error (property data ''numDimensions'') bad))))"
proof -
  let ?nd = "property data ''numDimensions''"
  obtain cs r where r: "replay eng [] (text_calls data) = (cs, r)"
    by (cases "replay eng [] (text_calls data)")
  have eq: "loadIndexJSON eng throws logger (Some data) =
           (case replay eng [] (text_calls data @ map entry_call pre) of
              (calls, Inl e) \<Rightarrow> (calls, Inl (RecreateFailed e))
            | (calls, Inr u) \<Rightarrow> (calls, Inl (RecreateFailed (entry_error ?nd bad))))"
  proof (cases r)
    case (Inl e)
    with r show ?thesis
      unfolding loadIndexJSON_eq [OF assms(1)] replay_append by simp
  next
    case (Inr u)
    obtain cs' r' where r': "replay eng cs (map entry_call pre) = (cs', r')"
      by (cases "replay eng cs (map entry_call pre)")
    show ?thesis
      unfolding loadIndexJSON_eq [OF assms(1)] replay_append add_vectors_append [OF assms(2)]
      using r Inr r' add_vectors_invalid [OF assms(3), of eng post cs']
      by (cases r') (simp_all add: finish_def)
  qed
  have ok: "loadIndexJSON eng throws logger (Some data) =
              (text_calls data @ map entry_call pre, Inl (RecreateFailed (entry_error ?nd bad)))"
    if rp: "replay eng [] (text_calls data @ map entry_call pre) = (calls, Inr ())"
    unfolding eq rp using replay_Inr [OF rp] by simp
  from eq ok show ?thesis by blast
qed

text \<open>
  The document whose second record has the label \<^verbatim>\<open>"x"\<close>, with an engine that refuses a
  label it has already received: the index has been created and initialised and the first
  record inserted when the load fails.
\<close>

theorem invalid_record_fails_after_insertions_witness:
  "loadIndexJSON no_duplicates returning defaultLogger (Some bad_label_document)
     = (take 3 example_calls, Inl (RecreateFailed (InvalidLabel (Str ''x''))))"
proof -
  let ?pre = "[Obj [(''label'', num 0), (''point'', Arr [num 1, num 0, num 0])]]"
  let ?bad = "Obj [(''label'', Str ''x''), (''point'', Arr [num 0, num 1, num 0])]"
  let ?post = "[Obj [(''label'', num 2), (''point'', Arr [num 0, num 0, num 1])]]"
  have p: "property bad_label_document ''numDimensions'' = num 3"
    by (simp add: bad_label_document_def property_def)
  have a: "passes_checks bad_label_document (?pre @ ?bad # ?post)"
    by (simp add: passes_checks_def bad_label_document_def num_def)
  have b: "list_all (valid_entry (property bad_label_document ''numDimensions'')) ?pre"
    unfolding p by (simp add: valid_entry_def num_def)
  have c: "\<not> valid_entry (property bad_label_document ''numDimensions'') ?bad"
    unfolding p by (simp add: valid_entry_def)
  have cs: "text_calls bad_label_document @ map entry_call ?pre = take 3 example_calls"
    by (simp add: text_calls_def bad_label_document_def property_def entry_call_def
        js_or_def num_def example_calls_def)
  have e: "entry_error (num 3) ?bad = InvalidLabel (Str ''x'')"
    by (simp add: entry_error_def)
  have rp: "replay no_duplicates [] (take 3 example_calls) = (take 3 example_calls, Inr ())"
    by code_simp
  from invalid_record_fails_after_insertions [OF a b c, where eng = no_duplicates
      and calls = "take 3 example_calls" and throws = returning and logger = defaultLogger,
      unfolded cs p e] rp
  show ?thesis by blast
qed

text \<open>
  Claim C5 as the spec states it fails on that document: when the load fails on the invalid
  label, the engine has completed three calls.
\<close>

theorem index_built_before_validation_counterexample:
  "loadIndexJSON accepting returning defaultLogger (Some bad_label_document)
     = ([New (Str ''l2'') (num 3), InitIndex (num 10) (num 16) (num 200) (num 100),
         AddPoint (Arr [num 1, num 0, num 0]) (num 0) False],
        Inl (RecreateFailed (InvalidLabel (Str ''x''))))"
  by code_simp

section \<open>The validation of the save path\<close>

lemma validateIndex_Inl:
  assumes "validateIndex index = Inl e"
  shows "saveIndexToFile rt throws logger index filename metadata = (None, Inl e)"
  using assms by (simp add: saveIndexToFile_def)

text \<open>
  Claim C2, as amended.  When the index is missing, or lacks one of the four methods
  \<^verbatim>\<open>getNumDimensions\<close>, \<^verbatim>\<open>getCurrentCount\<close>, \<^verbatim>\<open>getUsedLabels\<close> and \<^verbatim>\<open>getPoint\<close>,
  the validation fails and \<^verbatim>\<open>saveIndexToFile\<close> throws its error before any further work:
  no method is called, nothing is written, the logger is not notified, and the file name is
  not looked at.  The validation does not depend on \<^verbatim>\<open>initIndex\<close> and \<^verbatim>\<open>addPoint\<close>.
\<close>

theorem validation_checks_read_methods:
  assumes "index = None
     \<or> (\<exists>idx. index = Some idx
          \<and> (getNumDimensions idx = None \<or> getCurrentCount idx = None
               \<or> getUsedLabels idx = None \<or> getPoint idx = None))"
  shows "validateIndex index = Inl (if index = None then IndexRequired else MissingMethods)
       \<and> saveIndexToFile rt throws logger index filename metadata
           = (None, Inl (if index = None then IndexRequired else MissingMethods))
       \<and> validateIndex (Some (other \<lparr> initIndex := a, addPoint := b \<rparr>)) = validateIndex (Some other)"
proof -
  from assms have v: "validateIndex index = Inl (if index = None then IndexRequired else MissingMethods)"
    by (auto simp: validateIndex_def)
  have w: "validateIndex (Some (other \<lparr> initIndex := a, addPoint := b \<rparr>)) = validateIndex (Some other)"
    by (simp add: validateIndex_def)
  from v validateIndex_Inl [OF v] w show ?thesis by blast
qed

text \<open>
  The scenario's index without \<^verbatim>\<open>getPoint\<close>, saved under an empty file name, and the
  missing index, saved with a logger that has no method at all.
\<close>

theorem validation_checks_read_methods_witness:
  "getPoint pointless_index = None
   \<and> saveIndexToFile example_runtime returning defaultLogger (Some pointless_index) []
       example_metadata = (None, Inl MissingMethods)
   \<and> saveIndexToFile example_runtime returning Map.empty None ''vectors-3d.bin''
       example_metadata = (None, Inl IndexRequired)"
proof -
  have g: "getPoint pointless_index = None" by (simp add: pointless_index_def)
  then have h: "Some pointless_index = None
     \<or> (\<exists>idx. Some pointless_index = Some idx
          \<and> (getNumDimensions idx = None \<or> getCurrentCount idx = None
               \<or> getUsedLabels idx = None \<or> getPoint idx = None))"
    by simp
  have h': "(None :: index_obj option) = None
     \<or> (\<exists>idx. None = Some idx
          \<and> (getNumDimensions idx = None \<or> getCurrentCount idx = None
               \<or> getUsedLabels idx = None \<or> getPoint idx = None))"
    by simp
  from validation_checks_read_methods [OF h, of example_runtime returning defaultLogger "[]"
      example_metadata]
    validation_checks_read_methods [OF h', of example_runtime returning Map.empty
      "''vectors-3d.bin''" example_metadata] g
  show ?thesis by simp
qed

text \<open>
  Claim C2 as the spec states it fails on the scenario's index without \<^verbatim>\<open>initIndex\<close> and
  \<^verbatim>\<open>addPoint\<close>: the validation passes and the binary file is written.
\<close>

theorem unchecked_methods_counterexample:
  "initIndex reader_index = None \<and> addPoint reader_index = None
   \<and> validateIndex (Some reader_index) = Inr ()
   \<and> saveIndexToFile example_runtime returning defaultLogger (Some reader_index)
       ''vectors-3d.bin'' example_metadata
     = (Some (BinaryFile (example_header @ example_records)), Inr ())"
proof -
  have a: "initIndex reader_index = None \<and> addPoint reader_index = None"
    by (simp add: reader_index_def)
  have b: "validateIndex (Some reader_index) = Inr ()"
    by (simp add: reader_index_def example_index_def validateIndex_def)
  have c: "saveIndexToFile example_runtime returning defaultLogger (Some reader_index)
       ''vectors-3d.bin'' example_metadata
     = (Some (BinaryFile (example_header @ example_records)), Inr ())"
    by code_simp
  from a b c show ?thesis by blast
qed

section \<open>Properties of the logger slot\<close>

text \<open>
  Claim C10.  Every call of \<^verbatim>\<open>setLogger\<close> merges its argument with the default logger
  and not with the logger installed before: a property the argument lacks gets the built-in
  default (\<^verbatim>\<open>log\<close> the no-op, \<^verbatim>\<open>error\<close> \<^verbatim>\<open>console.error\<close>), whatever the previous
  logger was.  So \<^verbatim>\<open>setLogger({error: e})\<close> after \<^verbatim>\<open>setLogger({log: f})\<close> leaves
  \<^verbatim>\<open>log\<close> the no-op, and \<^verbatim>\<open>f\<close> is gone.
\<close>

theorem setLogger_merges_with_default:
  "setLogger customLogger previous name =
     (case customLogger name of Some f \<Rightarrow> Some f | None \<Rightarrow> defaultLogger name)
   \<and> setLogger customLogger previous = setLogger customLogger defaultLogger
   \<and> (customLogger ''log'' = None \<longrightarrow> setLogger customLogger previous ''log'' = Some NoOp)
   \<and> (customLogger ''error'' = None \<longrightarrow>
        setLogger customLogger previous ''error'' = Some ConsoleError)
   \<and> setLogger [''error'' \<mapsto> e] (setLogger [''log'' \<mapsto> f] previous) ''log'' = Some NoOp"
  by (simp add: setLogger_def defaultLogger_def map_add_def split: option.splits)

theorem setLogger_merges_with_default_witness:
  "setLogger [''error'' \<mapsto> UserFn 2] (setLogger [''log'' \<mapsto> UserFn 1] defaultLogger) ''log''
     = Some NoOp
   \<and> setLogger [''error'' \<mapsto> UserFn 2] (setLogger [''log'' \<mapsto> UserFn 1] defaultLogger) ''error''
     = Some (UserFn 2)
   \<and> setLogger [''log'' \<mapsto> UserFn 1] defaultLogger ''error'' = Some ConsoleError"
  using setLogger_merges_with_default
    [of "[''error'' \<mapsto> UserFn 2]" "setLogger [''log'' \<mapsto> UserFn 1] defaultLogger" "''log''"
        "UserFn 2" "UserFn 1"]
    setLogger_merges_with_default
    [of "[''error'' \<mapsto> UserFn 2]" "setLogger [''log'' \<mapsto> UserFn 1] defaultLogger" "''error''"
        "UserFn 2" "UserFn 1"]
    setLogger_merges_with_default
    [of "[''log'' \<mapsto> UserFn 1]" defaultLogger "''error''" "UserFn 2" "UserFn 1"]
  by (simp add: defaultLogger_def)

end
